theory Spec2Isabelle
  imports Main "HOL-Library.Word"
begin

section \<open>Data model of \<open>sources/webserver/WebServer.cpp\<close>\<close>

text \<open>
  A port is a \<open>quint16\<close>: a 16-bit word, on which \<open>port++\<close> wraps from 65535 to 0.
\<close>

type_synonym quint16 = "16 word"

text \<open>
  \<open>settings::type\<close> is declared outside the file; the handler only compares it with
  \<open>WEBSERVER\<close>, so every other enumerator is \<open>OTHER n\<close>.
\<close>

datatype settings_type = WEBSERVER | OTHER nat

text \<open>
  A \<open>QDateTime\<close> is an instant, in milliseconds since the epoch, and the time zone it
  is expressed in, as the offset of that zone from UTC in milliseconds. Its \<open>date()\<close>
  is the number of the calendar day on which the instant falls in that zone.
  \<open>QDateTime::currentDateTime()\<close> is expressed in the local zone of the machine;
  \<open>QSslCertificate::expiryDate()\<close> is expressed in UTC, offset 0.
\<close>

record QDateTime =
  msecsSinceEpoch :: int
  offsetFromUtc :: int

definition MSECS_PER_DAY :: int where
  "MSECS_PER_DAY = 86400000"

definition date :: "QDateTime \<Rightarrow> int" where
  "date t = (msecsSinceEpoch t + offsetFromUtc t) div MSECS_PER_DAY"

record QSslCertificate =
  cert_isNull :: bool
  expiryDate :: QDateTime
  cert_raw :: string

record QSslKey =
  key_isNull :: bool
  key_raw :: string

text \<open>
  The settings object (\<open>QJsonObject\<close>): a field is \<open>None\<close> when the key is absent or
  holds a value of another JSON type, which is when \<open>toString(default)\<close> and
  \<open>toInt(default)\<close> return their default.
\<close>

record config =
  document_root :: "string option"
  cfg_port :: "int option"
  cfg_sslPort :: "int option"
  cfg_keyPath :: "string option"
  cfg_crtPath :: "string option"
  cfg_keyPassPhrase :: "string option"

text \<open>What the code reports and calls, in the order in which it does so.\<close>

datatype level = Info | Warning | Error

datatype log_msg =
    Apply_Webserver_settings
  | document_root_is_invalid string
  | Set_document_root_to string
  | Port_in_use_will_increment quint16
  | Requested_Port_in_use_will_use quint16 quint16
  | No_SSL_key_found_falling_back string
  | No_SSL_certificate_found_falling_back string
  | SSL_certificate_invalid_or_expired string
  | Setup_SSL_certificate
  | No_valid_SSL_certificate_found string
  | SSL_key_invalid string
  | Setup_private_SSL_key
  | Started_on_port quint16
  | Stopped
  | Server_error

text \<open>The three signals of \<open>QtHttpServer\<close> that \<open>initServer\<close> connects to slots.\<close>

datatype signal = started quint16 | stopped | error

text \<open>
  An event is a log line, a call into a collaborator (\<open>_staticFileServing\<close>, \<open>_server\<close>,
  the Bonjour register), a signal the transport emits, or a signal \<open>WebServer\<close> emits
  (\<open>stateChange\<close>, \<open>portChanged\<close>).
\<close>

datatype event =
    Log level log_msg
  | setBaseUrl string
  | server_stop
  | server_start quint16
  | setCertificates "QSslCertificate list"
  | setPrivateKey QSslKey
  | emitted signal
  | stateChange bool
  | portChanged quint16
  | registerService quint16
  | delete_serviceRegister

text \<open>
  The world outside the process: the ports other processes hold, the file system, what
  the PEM parsers of Qt return for a path, the clock, the build flag \<open>ENABLE_BONJOUR\<close>
  and the three path constants of the header, which is not part of the sources at hand.
  A probe or a real \<open>listen\<close> on a port succeeds exactly when no other process holds it.
\<close>

record env =
  occupied :: "quint16 \<Rightarrow> bool"
  file_exists :: "string \<Rightarrow> bool"
  file_isDir :: "string \<Rightarrow> bool"
  fromDevice :: "string \<Rightarrow> QSslCertificate list"
  readKey :: "string \<Rightarrow> string \<Rightarrow> QSslKey"
  currentDateTime :: QDateTime
  ENABLE_BONJOUR :: bool
  WEBSERVER_DEFAULT_PATH :: string
  WEBSERVER_DEFAULT_KEY_PATH :: string
  WEBSERVER_DEFAULT_CRT_PATH :: string

record QtHttpServer =
  isListening :: bool
  serverPort :: quint16
  getCertificates :: "QSslCertificate list"
  getPrivateKey :: QSslKey

record WebServer =
  port :: quint16
  baseUrl :: string
  useSsl :: bool
  inited :: bool
  server :: QtHttpServer
  serviceRegister :: "quint16 option"
  WEBSERVER_DEFAULT_PORT :: quint16

section \<open>\<open>WebServer::portAvailable\<close>\<close>

text \<open>
  The \<open>while\<close> loop of \<open>portAvailable\<close>: probe the port, on a collision warn and
  increment. It has no bound, so it is a partial function: \<open>None\<close> is the loop that
  never ends.
\<close>

partial_function (option) probe :: "(quint16 \<Rightarrow> bool) \<Rightarrow> quint16 \<Rightarrow> event list \<Rightarrow> (quint16 \<times> event list) option" where
  "probe occ p evs =
     (if occ p then probe occ (p + 1) (evs @ [Log Warning (Port_in_use_will_increment p)])
      else Some (p, evs))"

text \<open>
  \<open>portAvailable(port, log)\<close>: the port after the loop (the reference parameter), the
  returned \<open>bool\<close> and the warnings.
\<close>

definition portAvailable :: "env \<Rightarrow> quint16 \<Rightarrow> (quint16 \<times> bool \<times> event list) option" where
  "portAvailable e prevPort =
     (case probe (occupied e) prevPort [] of
        None \<Rightarrow> None
      | Some (p, evs) \<Rightarrow>
          if p \<noteq> prevPort
          then Some (p, False, evs @ [Log Warning (Requested_Port_in_use_will_use prevPort p)])
          else Some (p, True, evs))"

section \<open>The transport and the slots\<close>

text \<open>
  Modelled from the spec: \<open>QtHttpServer::stop\<close> and \<open>QtHttpServer::isListening\<close>
  (QtHttpServer.cpp is not among the sources at hand). The spec's lifecycle: \<open>stop()\<close>
  is valid from any state and is a no-op when already stopped; on stop completion a
  "stopped" event is emitted. The call is synchronous: when it returns, \<open>isListening\<close>
  tells the new state and the slot of the emitted signal has run. The result is the new
  transport state and the signal emitted, if any.
\<close>

definition QtHttpServer_stop :: "QtHttpServer \<Rightarrow> QtHttpServer \<times> signal option" where
  "QtHttpServer_stop q =
     (if isListening q then (q\<lparr>isListening := False\<rparr>, Some stopped) else (q, None))"

text \<open>
  Modelled from the spec: \<open>QtHttpServer::start\<close> (QtHttpServer.cpp is not among the
  sources at hand). From Stopped the spec is plain: a successful bind emits "started"
  with the port, a failed bind emits "error"; the bind succeeds exactly when no other
  process holds the port. On a \<open>start\<close> that reaches a transport that is listening the
  spec has sentences that do not agree: such a start "must first implicitly stop, then
  start" (lifecycle), and re-applying an unchanged snapshot, which makes the handler call
  \<open>start\<close> on the listening transport (line 225), is "a no-op for the listener" with
  "zero extra stop/start cycles" (reconciler, testable properties). The model takes the
  second: such a \<open>start\<close> does nothing. Every start that follows a stop of the handler
  is a start from Stopped and does not meet this choice. What is proved of two runs in
  succession is stated on the handler's own calls, so that it does not rest on it either.
\<close>

definition QtHttpServer_start :: "env \<Rightarrow> quint16 \<Rightarrow> QtHttpServer \<Rightarrow> QtHttpServer \<times> signal option" where
  "QtHttpServer_start e p q =
     (if isListening q then (q, None)
      else if occupied e p then (q, Some error)
      else (q\<lparr>isListening := True, serverPort := p\<rparr>, Some (started p)))"

text \<open>
  \<open>WebServer::onServerStarted\<close>. Of the Bonjour register (its class is not among the
  sources at hand) the slot uses the constructor with \<open>registerService()\<close>,
  \<open>getPort()\<close> and \<open>delete\<close>: the register is the port it was created with,
  \<open>None\<close> is the null pointer.
\<close>

definition onServerStarted :: "env \<Rightarrow> quint16 \<Rightarrow> WebServer \<Rightarrow> WebServer \<times> event list" where
  "onServerStarted e p s =
     (let s1 = s\<lparr>inited := True\<rparr>;
          (s2, ev) =
            (if ENABLE_BONJOUR e \<and> \<not> useSsl s1 then
               (case serviceRegister s1 of
                  None \<Rightarrow> (s1\<lparr>serviceRegister := Some p\<rparr>, [registerService p])
                | Some r \<Rightarrow>
                    if r \<noteq> p
                    then (s1\<lparr>serviceRegister := Some p\<rparr>, [delete_serviceRegister, registerService p])
                    else (s1, []))
             else (s1, []))
      in (s2, [Log Info (Started_on_port p)] @ ev @ [stateChange True]))"

definition onServerStopped :: "WebServer \<Rightarrow> WebServer \<times> event list" where
  "onServerStopped s = (s, [Log Info Stopped, stateChange False])"

definition onServerError :: "WebServer \<Rightarrow> WebServer \<times> event list" where
  "onServerError s = (s, [Log Error Server_error])"

text \<open>
  The connections made in \<open>initServer\<close>: an emitted signal runs its slot at once, on
  the caller's thread.
\<close>

fun deliver :: "env \<Rightarrow> signal option \<Rightarrow> WebServer \<Rightarrow> WebServer \<times> event list" where
  "deliver e None s = (s, [])"
| "deliver e (Some (started p)) s =
     (let (s', ev) = onServerStarted e p s in (s', emitted (started p) # ev))"
| "deliver e (Some stopped) s =
     (let (s', ev) = onServerStopped s in (s', emitted stopped # ev))"
| "deliver e (Some error) s =
     (let (s', ev) = onServerError s in (s', emitted error # ev))"

text \<open>\<open>WebServer::start\<close> and \<open>WebServer::stop\<close> forward to the transport.\<close>

definition start :: "env \<Rightarrow> WebServer \<Rightarrow> WebServer \<times> event list" where
  "start e s =
     (let (q, sg) = QtHttpServer_start e (port s) (server s);
          (s', ev) = deliver e sg (s\<lparr>server := q\<rparr>)
      in (s', server_start (port s) # ev))"

definition stop :: "env \<Rightarrow> WebServer \<Rightarrow> WebServer \<times> event list" where
  "stop e s =
     (let (q, sg) = QtHttpServer_stop (server s);
          (s', ev) = deliver e sg (s\<lparr>server := q\<rparr>)
      in (s', server_stop # ev))"

section \<open>\<open>WebServer::handleSettingsUpdate\<close>\<close>

text \<open>
  A \<open>QString\<close> is the list of the bytes of its UTF-8 encoding. The characters of which
  \<open>QChar::isSpace\<close> holds, each as its encoding: U+0009 to U+000D, U+0020, U+0085,
  U+00A0, and the separators U+1680, U+2000 to U+200A, U+2028, U+2029, U+202F, U+205F and
  U+3000.
\<close>

definition white_space :: "string list" where
  "white_space =
     [[CHR 0x09], [CHR 0x0A], [CHR 0x0B], [CHR 0x0C], [CHR 0x0D], [CHR 0x20],
      [CHR 0xC2, CHR 0x85], [CHR 0xC2, CHR 0xA0],
      [CHR 0xE1, CHR 0x9A, CHR 0x80],
      [CHR 0xE2, CHR 0x80, CHR 0x80], [CHR 0xE2, CHR 0x80, CHR 0x81],
      [CHR 0xE2, CHR 0x80, CHR 0x82], [CHR 0xE2, CHR 0x80, CHR 0x83],
      [CHR 0xE2, CHR 0x80, CHR 0x84], [CHR 0xE2, CHR 0x80, CHR 0x85],
      [CHR 0xE2, CHR 0x80, CHR 0x86], [CHR 0xE2, CHR 0x80, CHR 0x87],
      [CHR 0xE2, CHR 0x80, CHR 0x88], [CHR 0xE2, CHR 0x80, CHR 0x89],
      [CHR 0xE2, CHR 0x80, CHR 0x8A],
      [CHR 0xE2, CHR 0x80, CHR 0xA8], [CHR 0xE2, CHR 0x80, CHR 0xA9],
      [CHR 0xE2, CHR 0x80, CHR 0xAF], [CHR 0xE2, CHR 0x81, CHR 0x9F],
      [CHR 0xE3, CHR 0x80, CHR 0x80]]"

definition isSpace :: "string \<Rightarrow> bool" where
  "isSpace c = (c \<in> set white_space)"

text \<open>
  \<open>QString::trimmed().isEmpty()\<close>: the string holds white space only. The string is
  read character by character; a white-space character of one, two or three bytes is
  passed over, any other character ends the reading.
\<close>

fun trimmed_isEmpty :: "string \<Rightarrow> bool" where
  "trimmed_isEmpty [] = True"
| "trimmed_isEmpty [a] = isSpace [a]"
| "trimmed_isEmpty [a, b] = (if isSpace [a] then trimmed_isEmpty [b] else isSpace [a, b])"
| "trimmed_isEmpty (a # b # c # str) =
     (if isSpace [a] then trimmed_isEmpty (b # c # str)
      else if isSpace [a, b] then trimmed_isEmpty (c # str)
      else isSpace [a, b, c] \<and> trimmed_isEmpty str)"

text \<open>\<open>QJsonValue::toString(default)\<close> and \<open>toInt(default)\<close> (a C \<open>int\<close> of 32 bits).\<close>

definition toString :: "string option \<Rightarrow> string \<Rightarrow> string" where
  "toString v d = (case v of None \<Rightarrow> d | Some str \<Rightarrow> str)"

definition toInt :: "int option \<Rightarrow> int \<Rightarrow> int" where
  "toInt v d = (case v of None \<Rightarrow> d | Some n \<Rightarrow> if - (2 ^ 31) \<le> n \<and> n < 2 ^ 31 then n else d)"

text \<open>Lines 121 to 137: the document root.\<close>

definition documentRoot :: "env \<Rightarrow> config \<Rightarrow> string \<times> event list" where
  "documentRoot e obj =
     (let b = toString (document_root obj) (WEBSERVER_DEFAULT_PATH e) in
      if b \<noteq> '':/webconfig'' \<and> \<not> trimmed_isEmpty b then
        if \<not> file_exists e b \<or> \<not> file_isDir e b
        then (WEBSERVER_DEFAULT_PATH e, [Log Error (document_root_is_invalid b)])
        else (b, [])
      else (WEBSERVER_DEFAULT_PATH e, []))"

text \<open>Line 140: the requested port, converted to \<open>quint16\<close>.\<close>

definition newPort :: "WebServer \<Rightarrow> config \<Rightarrow> quint16" where
  "newPort s obj =
     word_of_int (if useSsl s then toInt (cfg_sslPort obj) (uint (WEBSERVER_DEFAULT_PORT s))
                  else toInt (cfg_port obj) (uint (WEBSERVER_DEFAULT_PORT s)))"

text \<open>Lines 154 to 184: the key path and the certificate path.\<close>

definition keyPath :: "env \<Rightarrow> config \<Rightarrow> string \<times> event list" where
  "keyPath e obj =
     (let k = toString (cfg_keyPath obj) (WEBSERVER_DEFAULT_KEY_PATH e) in
      if k \<noteq> WEBSERVER_DEFAULT_KEY_PATH e \<and> \<not> trimmed_isEmpty k then
        if \<not> file_exists e k
        then (WEBSERVER_DEFAULT_KEY_PATH e, [Log Error (No_SSL_key_found_falling_back k)])
        else (k, [])
      else (WEBSERVER_DEFAULT_KEY_PATH e, []))"

definition crtPath :: "env \<Rightarrow> config \<Rightarrow> string \<times> event list" where
  "crtPath e obj =
     (let c = toString (cfg_crtPath obj) (WEBSERVER_DEFAULT_CRT_PATH e) in
      if c \<noteq> WEBSERVER_DEFAULT_CRT_PATH e \<and> \<not> trimmed_isEmpty c then
        if \<not> file_exists e c
        then (WEBSERVER_DEFAULT_CRT_PATH e, [Log Error (No_SSL_certificate_found_falling_back c)])
        else (c, [])
      else (WEBSERVER_DEFAULT_CRT_PATH e, []))"

text \<open>
  \<open>QDateTime::daysTo\<close> is \<open>date().daysTo(other.date())\<close>: the difference of the two
  calendar dates, each read in the zone of its own date-time, whatever the times of day
  (from 23:55 to 0:05 of the next day is one day). Line 195 so compares the local date of
  now with the UTC date of the expiry.
\<close>

definition daysTo :: "QDateTime \<Rightarrow> QDateTime \<Rightarrow> int" where
  "daysTo a b = date b - date a"

text \<open>Lines 194 to 199: the loop over \<open>cList\<close> that fills \<open>validList\<close>.\<close>

fun filterValid :: "QDateTime \<Rightarrow> string \<Rightarrow> QSslCertificate list \<Rightarrow> QSslCertificate list \<Rightarrow> event list
    \<Rightarrow> QSslCertificate list \<times> event list" where
  "filterValid now path [] validList evs = (validList, evs)"
| "filterValid now path (entry # cList) validList evs =
     (if \<not> cert_isNull entry \<and> daysTo now (expiryDate entry) > 0
      then filterValid now path cList (validList @ [entry]) evs
      else filterValid now path cList validList
             (evs @ [Log Error (SSL_certificate_invalid_or_expired path)]))"

text \<open>Lines 201 to 207 and 216 to 222: the two installations.\<close>

definition installCertificates :: "string \<Rightarrow> QSslCertificate list \<Rightarrow> WebServer \<Rightarrow> WebServer \<times> event list" where
  "installCertificates path validList s =
     (if validList \<noteq> []
      then (s\<lparr>server := (server s)\<lparr>getCertificates := validList\<rparr>\<rparr>,
            [Log Info Setup_SSL_certificate, setCertificates validList])
      else (s, [Log Error (No_valid_SSL_certificate_found path)]))"

definition installKey :: "string \<Rightarrow> QSslKey \<Rightarrow> WebServer \<Rightarrow> WebServer \<times> event list" where
  "installKey path key s =
     (if key_isNull key
      then (s, [Log Error (SSL_key_invalid path)])
      else (s\<lparr>server := (server s)\<lparr>getPrivateKey := key\<rparr>\<rparr>,
            [Log Info Setup_private_SSL_key, setPrivateKey key]))"

text \<open>Lines 152 to 223: the whole block under \<open>if (_useSsl)\<close>.\<close>

definition loadSsl :: "env \<Rightarrow> config \<Rightarrow> WebServer \<Rightarrow> WebServer \<times> event list" where
  "loadSsl e obj s =
     (let (kp, ev_k) = keyPath e obj;
          (cp, ev_c) = crtPath e obj;
          (validList, ev_f) = filterValid (currentDateTime e) cp (fromDevice e cp) [] [];
          (s1, ev_i) = installCertificates cp validList s;
          key = readKey e kp (toString (cfg_keyPassPhrase obj) []);
          (s2, ev_y) = installKey kp key s1
      in (s2, ev_k @ ev_c @ ev_f @ ev_i @ ev_y))"

text \<open>Lines 118 to 137: the document root is resolved and handed to the file server.\<close>

definition applyDocumentRoot :: "env \<Rightarrow> config \<Rightarrow> WebServer \<Rightarrow> WebServer \<times> event list" where
  "applyDocumentRoot e obj s =
     (let (b, ev) = documentRoot e obj
      in (s\<lparr>baseUrl := b\<rparr>,
          [Log Info Apply_Webserver_settings] @ ev @ [Log Info (Set_document_root_to b), setBaseUrl b]))"

text \<open>Lines 140 to 145: a port that differs from \<open>_port\<close> is stored, then \<open>stop()\<close>.\<close>

definition applyPort :: "env \<Rightarrow> config \<Rightarrow> WebServer \<Rightarrow> WebServer \<times> event list" where
  "applyPort e obj s =
     (if port s \<noteq> newPort s obj then stop e (s\<lparr>port := newPort s obj\<rparr>) else (s, []))"

text \<open>
  Lines 148 and 149: \<open>portAvailable(_port, _log)\<close> when the transport is not listening;
  its \<open>bool\<close> is dropped. \<open>None\<close> is the probe loop that never ends.
\<close>

definition negotiate :: "env \<Rightarrow> WebServer \<Rightarrow> (WebServer \<times> event list) option" where
  "negotiate e s =
     (if \<not> isListening (server s) then
        (case portAvailable e (port s) of
           None \<Rightarrow> None
         | Some (p, _, ev) \<Rightarrow> Some (s\<lparr>port := p\<rparr>, ev))
      else Some (s, []))"

definition applySsl :: "env \<Rightarrow> config \<Rightarrow> WebServer \<Rightarrow> WebServer \<times> event list" where
  "applySsl e obj s = (if useSsl s then loadSsl e obj s else (s, []))"

text \<open>The handler, lines 114 to 228. \<open>None\<close> is the call that never returns.\<close>

definition handleSettingsUpdate :: "env \<Rightarrow> settings_type \<Rightarrow> config \<Rightarrow> WebServer
    \<Rightarrow> (WebServer \<times> event list) option" where
  "handleSettingsUpdate e type obj s =
     (if type = WEBSERVER then
        let (s1, ev1) = applyDocumentRoot e obj s;
            (s2, ev2) = applyPort e obj s1
        in case negotiate e s2 of
             None \<Rightarrow> None
           | Some (s3, ev3) \<Rightarrow>
               let (s4, ev4) = applySsl e obj s3;
                   (s5, ev5) = start e s4
               in Some (s5, ev1 @ ev2 @ ev3 @ ev4 @ ev5 @ [portChanged (port s5)])
      else Some (s, []))"

text \<open>
  The state in which \<open>initServer\<close> calls the handler for the first time: the
  constructor's port 0, a transport that is not listening and has no identity, no
  Bonjour register. \<open>WEBSERVER_DEFAULT_PORT\<close> is the header's value, or 8092 once
  \<open>initServer\<close> has seen \<open>_useSsl\<close>.
\<close>

definition new_WebServer :: "bool \<Rightarrow> quint16 \<Rightarrow> WebServer" where
  "new_WebServer ssl dflt =
     \<lparr>port = 0, baseUrl = [], useSsl = ssl, inited = False,
      server = \<lparr>isListening = False, serverPort = 0, getCertificates = [],
                getPrivateKey = \<lparr>key_isNull = True, key_raw = []\<rparr>\<rparr>,
      serviceRegister = None, WEBSERVER_DEFAULT_PORT = dflt\<rparr>"


section \<open>What a run shows\<close>

text \<open>The signals of the transport in a run, in order.\<close>

fun signals :: "event list \<Rightarrow> signal list" where
  "signals [] = []"
| "signals (emitted sg # evs) = sg # signals evs"
| "signals (_ # evs) = signals evs"

text \<open>The calls of \<open>_server->stop()\<close> and \<open>_server->start(_port)\<close>.\<close>

fun is_server_call :: "event \<Rightarrow> bool" where
  "is_server_call server_stop = True"
| "is_server_call (server_start p) = True"
| "is_server_call _ = False"

fun is_portChanged :: "event \<Rightarrow> bool" where
  "is_portChanged (portChanged p) = True"
| "is_portChanged _ = False"

text \<open>What lines 118 to 137 report and call.\<close>

fun is_documentRoot_event :: "event \<Rightarrow> bool" where
  "is_documentRoot_event (Log Info Apply_Webserver_settings) = True"
| "is_documentRoot_event (Log Error (document_root_is_invalid b)) = True"
| "is_documentRoot_event (Log Info (Set_document_root_to b)) = True"
| "is_documentRoot_event (setBaseUrl b) = True"
| "is_documentRoot_event _ = False"

text \<open>The certificates handed to \<open>setCertificates\<close> in a run.\<close>

fun installedCertificates :: "event list \<Rightarrow> QSslCertificate list" where
  "installedCertificates [] = []"
| "installedCertificates (setCertificates cs # evs) = cs @ installedCertificates evs"
| "installedCertificates (_ # evs) = installedCertificates evs"

text \<open>The two error reports of a path that was replaced (lines 166 and 179).\<close>

fun is_fallback_report :: "event \<Rightarrow> bool" where
  "is_fallback_report (Log Error (No_SSL_key_found_falling_back k)) = True"
| "is_fallback_report (Log Error (No_SSL_certificate_found_falling_back c)) = True"
| "is_fallback_report _ = False"

text \<open>The calls on the Bonjour register: creation with \<open>registerService()\<close>, and \<open>delete\<close>.\<close>

fun is_serviceRegister_call :: "event \<Rightarrow> bool" where
  "is_serviceRegister_call (registerService p) = True"
| "is_serviceRegister_call delete_serviceRegister = True"
| "is_serviceRegister_call _ = False"

section \<open>The wording of the specification on validity\<close>

text \<open>
  The specification's words, for comparison with the test of line 195: the validity a
  certificate has left, "at least one full day of remaining validity", and "notAfter in
  the past".
\<close>

definition remainingValidity :: "QDateTime \<Rightarrow> QSslCertificate \<Rightarrow> int" where
  "remainingValidity now c = msecsSinceEpoch (expiryDate c) - msecsSinceEpoch now"

definition hasFullDayRemaining :: "QDateTime \<Rightarrow> QSslCertificate \<Rightarrow> bool" where
  "hasFullDayRemaining now c = (MSECS_PER_DAY \<le> remainingValidity now c)"

definition notAfterInPast :: "QDateTime \<Rightarrow> QSslCertificate \<Rightarrow> bool" where
  "notAfterInPast now c = (remainingValidity now c < 0)"

section \<open>Example worlds\<close>

text \<open>
  A world with the given foreign ports, certificate files, key files and clock, on a
  machine whose local zone is UTC. It has a custom certificate, a custom key and a
  directory on disk; the built-in resources are read through \<open>fromDevice\<close> and
  \<open>readKey\<close> like any other path.
\<close>

definition world :: "(quint16 \<Rightarrow> bool) \<Rightarrow> (string \<Rightarrow> QSslCertificate list) \<Rightarrow> (string \<Rightarrow> string \<Rightarrow> QSslKey) \<Rightarrow> int \<Rightarrow> env" where
  "world occ certs keys now =
     \<lparr>occupied = occ,
      file_exists = (\<lambda>f. f = ''/etc/my.crt'' \<or> f = ''/etc/my.key'' \<or> f = ''/srv/www''),
      file_isDir = (\<lambda>f. f = ''/srv/www''),
      fromDevice = certs, readKey = keys,
      currentDateTime = \<lparr>msecsSinceEpoch = now, offsetFromUtc = 0\<rparr>,
      ENABLE_BONJOUR = True,
      WEBSERVER_DEFAULT_PATH = '':/webconfig'',
      WEBSERVER_DEFAULT_KEY_PATH = '':/hyperhdr.key'',
      WEBSERVER_DEFAULT_CRT_PATH = '':/hyperhdr.crt''\<rparr>"

text \<open>The same world on a machine whose local zone has the given offset from UTC.\<close>

definition world_in_zone :: "int \<Rightarrow> (quint16 \<Rightarrow> bool) \<Rightarrow> (string \<Rightarrow> QSslCertificate list)
    \<Rightarrow> (string \<Rightarrow> string \<Rightarrow> QSslKey) \<Rightarrow> int \<Rightarrow> env" where
  "world_in_zone offset occ certs keys now =
     (world occ certs keys now)\<lparr>currentDateTime := \<lparr>msecsSinceEpoch = now, offsetFromUtc = offset\<rparr>\<rparr>"

definition no_certs :: "string \<Rightarrow> QSslCertificate list" where
  "no_certs f = []"

definition no_key :: "string \<Rightarrow> string \<Rightarrow> QSslKey" where
  "no_key f pass = \<lparr>key_isNull = True, key_raw = []\<rparr>"

text \<open>Settings that name the two ports and leave every path to its default.\<close>

definition ports_only :: "int \<Rightarrow> int \<Rightarrow> config" where
  "ports_only p sp =
     \<lparr>document_root = None, cfg_port = Some p, cfg_sslPort = Some sp,
      cfg_keyPath = None, cfg_crtPath = None, cfg_keyPassPhrase = None\<rparr>"

text \<open>Certificates, keys, the files that hold them, a running instance, settings with paths.\<close>

definition certificate :: "string \<Rightarrow> int \<Rightarrow> QSslCertificate" where
  "certificate name notAfter =
     \<lparr>cert_isNull = False, expiryDate = \<lparr>msecsSinceEpoch = notAfter, offsetFromUtc = 0\<rparr>,
      cert_raw = name\<rparr>"

definition private_key :: "string \<Rightarrow> QSslKey" where
  "private_key name = \<lparr>key_isNull = False, key_raw = name\<rparr>"

definition certs_at :: "string \<Rightarrow> QSslCertificate list \<Rightarrow> string \<Rightarrow> QSslCertificate list" where
  "certs_at path cs f = (if f = path then cs else [])"

definition key_at :: "string \<Rightarrow> QSslKey \<Rightarrow> string \<Rightarrow> string \<Rightarrow> QSslKey" where
  "key_at path k f pass = (if f = path then k else \<lparr>key_isNull = True, key_raw = []\<rparr>)"

definition running_WebServer :: "bool \<Rightarrow> quint16 \<Rightarrow> QSslCertificate list \<Rightarrow> QSslKey \<Rightarrow> WebServer" where
  "running_WebServer ssl p cs k =
     \<lparr>port = p, baseUrl = '':/webconfig'', useSsl = ssl, inited = True,
      server = \<lparr>isListening = True, serverPort = p, getCertificates = cs, getPrivateKey = k\<rparr>,
      serviceRegister = (if ssl then None else Some p),
      WEBSERVER_DEFAULT_PORT = (if ssl then 8092 else 8090)\<rparr>"

definition paths :: "string \<Rightarrow> string \<Rightarrow> config" where
  "paths k c =
     \<lparr>document_root = None, cfg_port = Some 8090, cfg_sslPort = Some 8092,
      cfg_keyPath = Some k, cfg_crtPath = Some c, cfg_keyPassPhrase = None\<rparr>"

lemmas run_defs =
  handleSettingsUpdate_def applyDocumentRoot_def documentRoot_def toString_def toInt_def
  applyPort_def newPort_def stop_def QtHttpServer_stop_def negotiate_def portAvailable_def
  applySsl_def loadSsl_def keyPath_def crtPath_def installCertificates_def installKey_def
  daysTo_def date_def MSECS_PER_DAY_def
  start_def QtHttpServer_start_def onServerStarted_def onServerStopped_def onServerError_def
  isSpace_def white_space_def world_def world_in_zone_def no_certs_def no_key_def ports_only_def
  new_WebServer_def Let_def

lemmas example_defs =
  certificate_def private_key_def certs_at_def key_at_def
  running_WebServer_def paths_def

section \<open>The probe loop\<close>

lemma probe_run:
  "(\<forall>j<k. occ (p + of_nat j)) \<Longrightarrow> \<not> occ (p + of_nat k) \<Longrightarrow>
   probe occ p evs =
     Some (p + of_nat k, evs @ map (\<lambda>j. Log Warning (Port_in_use_will_increment (p + of_nat j))) [0..<k])"
proof (induction k arbitrary: p evs)
  case 0
  then show ?case by (subst probe.simps) simp
next
  case (Suc k)
  have occ_p: "occ p" using Suc.prems(1) [rule_format, of 0] by simp
  have step: "\<forall>j<k. occ (p + 1 + of_nat j)"
  proof (intro allI impI)
    fix j assume "j < k"
    then have "occ (p + of_nat (Suc j))" using Suc.prems(1) by blast
    then show "occ (p + 1 + of_nat j)" by (simp add: add.assoc)
  qed
  have free: "\<not> occ (p + 1 + of_nat k)" using Suc.prems(2) by (simp add: add.assoc)
  have "probe occ p evs = probe occ (p + 1) (evs @ [Log Warning (Port_in_use_will_increment p)])"
    using occ_p by (subst probe.simps) simp
  also have "\<dots> = Some (p + 1 + of_nat k, (evs @ [Log Warning (Port_in_use_will_increment p)]) @
        map (\<lambda>j. Log Warning (Port_in_use_will_increment (p + 1 + of_nat j))) [0..<k])"
    by (rule Suc.IH [OF step free])
  also have "map (\<lambda>j. Log Warning (Port_in_use_will_increment (p + 1 + of_nat j))) [0..<k]
     = map (\<lambda>j. Log Warning (Port_in_use_will_increment (p + of_nat j))) (map Suc [0..<k])"
    by (simp add: add.assoc)
  finally show ?case
    by (simp add: add.assoc upt_conv_Cons map_Suc_upt del: upt_Suc)
qed

lemma probe_free:
  assumes "probe occ p evs = Some (q, evs')"
  shows "\<not> occ q"
  by (rule probe.raw_induct [where P = "\<lambda>occ p evs r. \<not> occ (fst r)" and y = "(q, evs')", simplified, OF _ assms])
     (fastforce split: if_splits)

lemma probe_first_free:
  fixes p q :: quint16
  assumes "\<not> occ q"
  shows "\<exists>k. k \<le> unat (q - p) \<and> (\<forall>j<k. occ (p + of_nat j)) \<and> \<not> occ (p + of_nat k) \<and>
     probe occ p evs =
       Some (p + of_nat k, evs @ map (\<lambda>j. Log Warning (Port_in_use_will_increment (p + of_nat j))) [0..<k])"
proof -
  define k where "k = (LEAST k. \<not> occ (p + of_nat k))"
  have q: "\<not> occ (p + of_nat (unat (q - p)))" using assms by simp
  have free: "\<not> occ (p + of_nat k)" unfolding k_def by (rule LeastI [of _ "unat (q - p)"]) (rule q)
  have le: "k \<le> unat (q - p)" unfolding k_def by (rule Least_le) (rule q)
  have below: "\<forall>j<k. occ (p + of_nat j)"
    using not_less_Least [of _ "\<lambda>k. \<not> occ (p + of_nat k)"] unfolding k_def by blast
  show ?thesis using probe_run [OF below free] le below free by blast
qed

lemma probe_smallest_above:
  fixes p q :: quint16
  assumes "p \<le> q" "\<not> occ q"
  shows "\<exists>r evs'. probe occ p evs = Some (r, evs') \<and> p \<le> r \<and> r \<le> q \<and> \<not> occ r \<and>
     (\<forall>x. p \<le> x \<and> x < r \<longrightarrow> occ x)"
proof -
  obtain k where k: "k \<le> unat (q - p)" "\<forall>j<k. occ (p + of_nat j)" "\<not> occ (p + of_nat k)"
    "probe occ p evs =
       Some (p + of_nat k, evs @ map (\<lambda>j. Log Warning (Port_in_use_will_increment (p + of_nat j))) [0..<k])"
    using probe_first_free [of occ q p evs] assms(2) by blast
  have qp: "unat (q - p) = unat q - unat p" using assms(1) by (simp add: unat_sub)
  have pq: "unat p \<le> unat q" using assms(1) by (simp add: word_le_nat_alt)
  have q16: "unat q < 2 ^ 16" using unsigned_less [of q] by simp
  have bound: "unat p + k < 2 ^ 16" using k(1) qp pq q16 by linarith
  have un: "unat (p + of_nat k) = unat p + k"
    using bound by (simp add: unat_word_ariths unat_of_nat)
  have "p \<le> p + of_nat k" using un by (simp add: word_le_nat_alt)
  moreover have "p + of_nat k \<le> q" using un k(1) qp pq by (simp add: word_le_nat_alt)
  moreover have "\<forall>x. p \<le> x \<and> x < p + of_nat k \<longrightarrow> occ x"
  proof (intro allI impI)
    fix x assume x: "p \<le> x \<and> x < p + of_nat k"
    then have a: "unat p \<le> unat x" and b: "unat x < unat p + k"
      using un by (simp_all add: word_le_nat_alt word_less_nat_alt)
    have "x = p + of_nat (unat x - unat p)"
      using a by (simp add: of_nat_diff)
    moreover have "unat x - unat p < k" using a b by linarith
    ultimately show "occ x" using k(2) by metis
  qed
  ultimately show ?thesis using k(3,4) by blast
qed

lemma probe_returns:
  fixes p q :: quint16
  assumes "\<not> occ q"
  shows "\<exists>r evs'. probe occ p evs = Some (r, evs')"
  using probe_first_free [of occ q p evs] assms by blast

section \<open>The phases of the handler\<close>

lemma signals_append: "signals (xs @ ys) = signals xs @ signals ys"
  by (induction xs rule: signals.induct) simp_all

lemma signals_Log: "signals (map (\<lambda>x. Log (l x) (m x)) ws) = []"
  by (induction ws) simp_all

lemma installedCertificates_append:
  "installedCertificates (xs @ ys) = installedCertificates xs @ installedCertificates ys"
  by (induction xs rule: installedCertificates.induct) simp_all

lemma installedCertificates_Log: "installedCertificates (map (\<lambda>x. Log (l x) (m x)) ws) = []"
  by (induction ws) simp_all

lemma filterValid_eq:
  "filterValid now path cs acc evs =
     (acc @ filter (\<lambda>c. \<not> cert_isNull c \<and> daysTo now (expiryDate c) > 0) cs,
      evs @ map (\<lambda>c. Log Error (SSL_certificate_invalid_or_expired path))
              (filter (\<lambda>c. \<not> (\<not> cert_isNull c \<and> daysTo now (expiryDate c) > 0)) cs))"
  by (induction cs arbitrary: acc evs) simp_all

lemma daysTo_positive: "daysTo now t > 0 \<longleftrightarrow> date now < date t"
  by (simp add: daysTo_def)

lemma documentRoot_events:
  "snd (documentRoot e obj) = [] \<or> (\<exists>b. snd (documentRoot e obj) = [Log Error (document_root_is_invalid b)])"
  by (simp add: documentRoot_def Let_def)

lemma applyDocumentRoot_eq:
  "applyDocumentRoot e obj s =
     (s\<lparr>baseUrl := fst (documentRoot e obj)\<rparr>,
      Log Info Apply_Webserver_settings # snd (documentRoot e obj) @
        [Log Info (Set_document_root_to (fst (documentRoot e obj))), setBaseUrl (fst (documentRoot e obj))])"
  by (simp add: applyDocumentRoot_def split: prod.splits)

lemma stop_eq:
  "stop e s =
     (s\<lparr>server := (server s)\<lparr>isListening := False\<rparr>\<rparr>,
      server_stop # (if isListening (server s) then [emitted stopped, Log Info Stopped, stateChange False] else []))"
  by (simp add: stop_def QtHttpServer_stop_def onServerStopped_def)

lemma onServerStarted_eq:
  "onServerStarted e p s =
     (s\<lparr>inited := True,
        serviceRegister := (if ENABLE_BONJOUR e \<and> \<not> useSsl s then Some p else serviceRegister s)\<rparr>,
      Log Info (Started_on_port p) #
        (if ENABLE_BONJOUR e \<and> \<not> useSsl s then
           (case serviceRegister s of
              None \<Rightarrow> [registerService p]
            | Some r \<Rightarrow> if r \<noteq> p then [delete_serviceRegister, registerService p] else [])
         else []) @ [stateChange True])"
  by (cases s) (simp add: onServerStarted_def Let_def split: option.splits)

lemma start_eq:
  "start e s =
     (if isListening (server s) then (s, [server_start (port s)])
      else if occupied e (port s) then (s, [server_start (port s), emitted error, Log Error Server_error])
      else (fst (onServerStarted e (port s) (s\<lparr>server := (server s)\<lparr>isListening := True, serverPort := port s\<rparr>\<rparr>)),
            server_start (port s) # emitted (started (port s)) #
              snd (onServerStarted e (port s) (s\<lparr>server := (server s)\<lparr>isListening := True, serverPort := port s\<rparr>\<rparr>))))"
  by (simp add: start_def QtHttpServer_start_def onServerError_def split: prod.splits)

lemma keyPath_events:
  "snd (keyPath e obj) = [] \<or> (\<exists>k. snd (keyPath e obj) = [Log Error (No_SSL_key_found_falling_back k)])"
  by (simp add: keyPath_def Let_def)

lemma crtPath_events:
  "snd (crtPath e obj) = [] \<or> (\<exists>c. snd (crtPath e obj) = [Log Error (No_SSL_certificate_found_falling_back c)])"
  by (simp add: crtPath_def Let_def)

lemma loadSsl_eq:
  "loadSsl e obj s =
     (s\<lparr>server := (server s)
          \<lparr>getCertificates :=
             (if filter (\<lambda>c. \<not> cert_isNull c \<and> daysTo (currentDateTime e) (expiryDate c) > 0)
                   (fromDevice e (fst (crtPath e obj))) \<noteq> []
              then filter (\<lambda>c. \<not> cert_isNull c \<and> daysTo (currentDateTime e) (expiryDate c) > 0)
                   (fromDevice e (fst (crtPath e obj)))
              else getCertificates (server s)),
           getPrivateKey :=
             (if key_isNull (readKey e (fst (keyPath e obj)) (toString (cfg_keyPassPhrase obj) []))
              then getPrivateKey (server s)
              else readKey e (fst (keyPath e obj)) (toString (cfg_keyPassPhrase obj) []))\<rparr>\<rparr>,
      snd (keyPath e obj) @ snd (crtPath e obj) @
      map (\<lambda>c. Log Error (SSL_certificate_invalid_or_expired (fst (crtPath e obj))))
        (filter (\<lambda>c. \<not> (\<not> cert_isNull c \<and> daysTo (currentDateTime e) (expiryDate c) > 0))
           (fromDevice e (fst (crtPath e obj)))) @
      (if filter (\<lambda>c. \<not> cert_isNull c \<and> daysTo (currentDateTime e) (expiryDate c) > 0)
                   (fromDevice e (fst (crtPath e obj))) \<noteq> []
       then [Log Info Setup_SSL_certificate,
             setCertificates (filter (\<lambda>c. \<not> cert_isNull c \<and> daysTo (currentDateTime e) (expiryDate c) > 0)
                   (fromDevice e (fst (crtPath e obj))))]
       else [Log Error (No_valid_SSL_certificate_found (fst (crtPath e obj)))]) @
      (if key_isNull (readKey e (fst (keyPath e obj)) (toString (cfg_keyPassPhrase obj) []))
       then [Log Error (SSL_key_invalid (fst (keyPath e obj)))]
       else [Log Info Setup_private_SSL_key,
             setPrivateKey (readKey e (fst (keyPath e obj)) (toString (cfg_keyPassPhrase obj) []))]))"
  by (simp add: loadSsl_def filterValid_eq installCertificates_def installKey_def Let_def
        split: prod.splits)

lemma negotiate_cases:
  fixes q :: quint16
  assumes "\<not> occupied e q"
  shows "\<exists>p ws. negotiate e s = Some (s\<lparr>port := p\<rparr>, map (Log Warning) ws) \<and>
           (isListening (server s) \<longrightarrow> p = port s \<and> ws = []) \<and>
           (\<not> isListening (server s) \<longrightarrow> \<not> occupied e p \<and> (\<not> occupied e (port s) \<longrightarrow> p = port s \<and> ws = []))"
proof (cases "isListening (server s)")
  case True
  then have "negotiate e s = Some (s\<lparr>port := port s\<rparr>, map (Log Warning) [])"
    by (simp add: negotiate_def)
  then show ?thesis using True by blast
next
  case False
  obtain k where k: "\<not> occupied e (port s + of_nat k)" "\<forall>j<k. occupied e (port s + of_nat j)"
    "probe (occupied e) (port s) [] =
       Some (port s + of_nat k, [] @ map (\<lambda>j. Log Warning (Port_in_use_will_increment (port s + of_nat j))) [0..<k])"
    using probe_first_free [of "occupied e" q "port s" "[]"] assms by blast
  let ?p = "port s + of_nat k"
  let ?ws = "map (\<lambda>j. Port_in_use_will_increment (port s + of_nat j)) [0..<k] @
               (if ?p \<noteq> port s then [Requested_Port_in_use_will_use (port s) ?p] else [])"
  have run: "negotiate e s = Some (s\<lparr>port := ?p\<rparr>, map (Log Warning) ?ws)"
    using False k(3) by (simp add: negotiate_def portAvailable_def comp_def)
  have same: "\<not> occupied e (port s) \<longrightarrow> ?p = port s \<and> ?ws = []"
  proof
    assume f: "\<not> occupied e (port s)"
    have "k = 0"
    proof (rule ccontr)
      assume "k \<noteq> 0"
      then have "occupied e (port s + of_nat 0)" using k(2) by blast
      then show False using f by simp
    qed
    then show "?p = port s \<and> ?ws = []" by simp
  qed
  show ?thesis using run k(1) same False by blast
qed

lemma handleSettingsUpdate_WEBSERVER:
  "handleSettingsUpdate e WEBSERVER obj s =
     (case negotiate e (fst (applyPort e obj (fst (applyDocumentRoot e obj s)))) of
        None \<Rightarrow> None
      | Some (s3, ev3) \<Rightarrow>
          Some (fst (start e (fst (applySsl e obj s3))),
                snd (applyDocumentRoot e obj s) @
                snd (applyPort e obj (fst (applyDocumentRoot e obj s))) @ ev3 @
                snd (applySsl e obj s3) @ snd (start e (fst (applySsl e obj s3))) @
                [portChanged (port (fst (start e (fst (applySsl e obj s3)))))]))"
  by (simp add: handleSettingsUpdate_def split: prod.splits option.splits)

text \<open>What each phase leaves alone.\<close>

lemma applyDocumentRoot_frame:
  "port (fst (applyDocumentRoot e obj s)) = port s"
  "server (fst (applyDocumentRoot e obj s)) = server s"
  "useSsl (fst (applyDocumentRoot e obj s)) = useSsl s"
  "newPort (fst (applyDocumentRoot e obj s)) obj' = newPort s obj'"
  by (simp_all add: applyDocumentRoot_eq newPort_def)

lemma applyPort_frame:
  "useSsl (fst (applyPort e obj s)) = useSsl s"
  "newPort (fst (applyPort e obj s)) obj' = newPort s obj'"
  "getCertificates (server (fst (applyPort e obj s))) = getCertificates (server s)"
  "getPrivateKey (server (fst (applyPort e obj s))) = getPrivateKey (server s)"
  by (simp_all add: applyPort_def stop_eq newPort_def)

lemma port_update_frame:
  "newPort (s\<lparr>port := p\<rparr>) obj = newPort s obj"
  by (simp add: newPort_def)

lemma applySsl_frame:
  "isListening (server (fst (applySsl e obj s))) = isListening (server s)"
  "serverPort (server (fst (applySsl e obj s))) = serverPort (server s)"
  "useSsl (fst (applySsl e obj s)) = useSsl s"
  "newPort (fst (applySsl e obj s)) obj' = newPort s obj'"
  by (simp_all add: applySsl_def loadSsl_eq newPort_def)

lemma port_applySsl: "port (fst (applySsl e obj s)) = port s"
  by (simp add: applySsl_def loadSsl_eq)

lemma start_frame:
  "useSsl (fst (start e s)) = useSsl s"
  "newPort (fst (start e s)) obj' = newPort s obj'"
  "getCertificates (server (fst (start e s))) = getCertificates (server s)"
  "getPrivateKey (server (fst (start e s))) = getPrivateKey (server s)"
  by (simp_all add: start_eq onServerStarted_eq newPort_def)

lemma port_start: "port (fst (start e s)) = port s"
  by (simp add: start_eq onServerStarted_eq)

lemma certificates_frame:
  "getCertificates (server (fst (applyDocumentRoot e obj s))) = getCertificates (server s)"
  "getPrivateKey (server (fst (applyDocumentRoot e obj s))) = getPrivateKey (server s)"
  "getCertificates (server (s\<lparr>port := p\<rparr>)) = getCertificates (server s)"
  "getPrivateKey (server (s\<lparr>port := p\<rparr>)) = getPrivateKey (server s)"
  by (simp_all add: applyDocumentRoot_eq)

lemma serviceRegister_frame:
  "serviceRegister (fst (applyDocumentRoot e obj s)) = serviceRegister s"
  "serviceRegister (fst (applyPort e obj s)) = serviceRegister s"
  "serviceRegister (fst (applySsl e obj s)) = serviceRegister s"
  "serviceRegister (s\<lparr>port := p\<rparr>) = serviceRegister s"
  "useSsl (s\<lparr>port := p\<rparr>) = useSsl s"
  by (simp_all add: applyDocumentRoot_eq applyPort_def stop_eq applySsl_def loadSsl_eq)

text \<open>What each phase shows of each kind of event.\<close>

lemma portChanged_applyDocumentRoot: "filter is_portChanged (snd (applyDocumentRoot e obj s)) = []"
  using documentRoot_events [of e obj] by (auto simp add: applyDocumentRoot_eq)

lemma portChanged_applyPort: "filter is_portChanged (snd (applyPort e obj s)) = []"
  by (simp add: applyPort_def stop_eq)

lemma portChanged_applySsl: "filter is_portChanged (snd (applySsl e obj s)) = []"
  using keyPath_events [of e obj] crtPath_events [of e obj]
  by (auto simp add: applySsl_def loadSsl_eq filter_map comp_def)

lemma portChanged_start: "filter is_portChanged (snd (start e s)) = []"
  by (simp add: start_eq onServerStarted_eq split: option.splits)

lemma documentRoot_events_only: "list_all is_documentRoot_event (snd (applyDocumentRoot e obj s))"
  using documentRoot_events [of e obj] by (auto simp add: applyDocumentRoot_eq)

lemma calls_applyDocumentRoot: "filter is_server_call (snd (applyDocumentRoot e obj s)) = []"
  using documentRoot_events [of e obj] by (auto simp add: applyDocumentRoot_eq)

lemma calls_applySsl: "filter is_server_call (snd (applySsl e obj s)) = []"
  using keyPath_events [of e obj] crtPath_events [of e obj]
  by (auto simp add: applySsl_def loadSsl_eq filter_map comp_def)

lemma signals_applyDocumentRoot: "signals (snd (applyDocumentRoot e obj s)) = []"
  using documentRoot_events [of e obj] by (auto simp add: applyDocumentRoot_eq signals_append)

lemma signals_applySsl: "signals (snd (applySsl e obj s)) = []"
  using keyPath_events [of e obj] crtPath_events [of e obj]
  by (auto simp add: applySsl_def loadSsl_eq signals_append signals_Log)

lemma signals_onServerStarted: "signals (snd (onServerStarted e p s)) = []"
  by (simp add: onServerStarted_eq signals_append split: option.splits)

lemma calls_onServerStarted: "filter is_server_call (snd (onServerStarted e p s)) = []"
  by (simp add: onServerStarted_eq split: option.splits)

lemma installedCertificates_applyDocumentRoot: "installedCertificates (snd (applyDocumentRoot e obj s)) = []"
  using documentRoot_events [of e obj] by (auto simp add: applyDocumentRoot_eq installedCertificates_append)

lemma installedCertificates_applyPort: "installedCertificates (snd (applyPort e obj s)) = []"
  by (simp add: applyPort_def stop_eq)

lemma installedCertificates_start: "installedCertificates (snd (start e s)) = []"
  by (simp add: start_eq onServerStarted_eq installedCertificates_append split: option.splits)

lemma installedCertificates_loadSsl:
  "installedCertificates (snd (loadSsl e obj s)) =
     filter (\<lambda>c. \<not> cert_isNull c \<and> daysTo (currentDateTime e) (expiryDate c) > 0)
       (fromDevice e (fst (crtPath e obj)))"
  using keyPath_events [of e obj] crtPath_events [of e obj]
  by (auto simp add: loadSsl_eq installedCertificates_append installedCertificates_Log)

lemma register_applyDocumentRoot: "filter is_serviceRegister_call (snd (applyDocumentRoot e obj s)) = []"
  using documentRoot_events [of e obj] by (auto simp add: applyDocumentRoot_eq)

lemma register_applyPort: "filter is_serviceRegister_call (snd (applyPort e obj s)) = []"
  by (simp add: applyPort_def stop_eq)

lemma register_applySsl: "filter is_serviceRegister_call (snd (applySsl e obj s)) = []"
  using keyPath_events [of e obj] crtPath_events [of e obj]
  by (auto simp add: applySsl_def loadSsl_eq filter_map comp_def)

lemma register_start_free:
  assumes "\<not> isListening (server s)" "\<not> occupied e (port s)"
  shows "filter is_serviceRegister_call (snd (start e s)) =
           (if ENABLE_BONJOUR e \<and> \<not> useSsl s \<and> serviceRegister s \<noteq> Some (port s)
            then (if serviceRegister s = None then [] else [delete_serviceRegister]) @ [registerService (port s)]
            else [])"
    and "serviceRegister (fst (start e s)) =
           (if ENABLE_BONJOUR e \<and> \<not> useSsl s then Some (port s) else serviceRegister s)"
  using assms by (auto simp add: start_eq onServerStarted_eq split: option.splits)

lemma start_free:
  assumes "\<not> isListening (server s)" "\<not> occupied e (port s)"
  shows "isListening (server (fst (start e s)))" "serverPort (server (fst (start e s))) = port s"
    "signals (snd (start e s)) = [started (port s)]"
    "filter is_server_call (snd (start e s)) = [server_start (port s)]"
  using assms by (simp_all add: start_eq onServerStarted_eq signals_onServerStarted calls_onServerStarted signals_append split: option.splits)

lemma start_listening:
  assumes "isListening (server s)"
  shows "start e s = (s, [server_start (port s)])"
  using assms by (simp add: start_eq)

lemma loadSsl_certificates:
  "getCertificates (server (fst (loadSsl e obj s))) =
     (if filter (\<lambda>c. \<not> cert_isNull c \<and> date (currentDateTime e) < date (expiryDate c))
           (fromDevice e (fst (crtPath e obj))) \<noteq> []
      then filter (\<lambda>c. \<not> cert_isNull c \<and> date (currentDateTime e) < date (expiryDate c))
           (fromDevice e (fst (crtPath e obj)))
      else getCertificates (server s))"
  by (simp add: loadSsl_eq daysTo_positive)

lemma loadSsl_privateKey:
  "getPrivateKey (server (fst (loadSsl e obj s))) =
     (if key_isNull (readKey e (fst (keyPath e obj)) (toString (cfg_keyPassPhrase obj) []))
      then getPrivateKey (server s)
      else readKey e (fst (keyPath e obj)) (toString (cfg_keyPassPhrase obj) []))"
  by (simp add: loadSsl_eq)

lemma fallback_loadSsl:
  "filter is_fallback_report (snd (loadSsl e obj s)) = snd (keyPath e obj) @ snd (crtPath e obj)"
  using keyPath_events [of e obj] crtPath_events [of e obj]
  by (auto simp add: loadSsl_eq filter_map comp_def)

text \<open>The run of a TLS instance, around the block of lines 152 to 223.\<close>

lemma handleSettingsUpdate_ssl_run:
  fixes q :: quint16
  assumes "useSsl s" and "\<not> occupied e q"
  shows "\<exists>s' ev_a s3 ev_b. handleSettingsUpdate e WEBSERVER obj s = Some (s', ev_a @ snd (loadSsl e obj s3) @ ev_b) \<and>
           installedCertificates ev_a = [] \<and> installedCertificates ev_b = [] \<and>
           filter is_fallback_report ev_a = [] \<and> filter is_fallback_report ev_b = [] \<and>
           server_start (port s') \<in> set ev_b \<and>
           getCertificates (server s3) = getCertificates (server s) \<and>
           getPrivateKey (server s3) = getPrivateKey (server s) \<and>
           getCertificates (server s') = getCertificates (server (fst (loadSsl e obj s3))) \<and>
           getPrivateKey (server s') = getPrivateKey (server (fst (loadSsl e obj s3)))"
proof -
  let ?s1 = "fst (applyDocumentRoot e obj s)"
  let ?s2 = "fst (applyPort e obj ?s1)"
  obtain p ws where n: "negotiate e ?s2 = Some (?s2\<lparr>port := p\<rparr>, map (Log Warning) ws)"
    using negotiate_cases [OF assms(2), of ?s2] by blast
  let ?s3 = "?s2\<lparr>port := p\<rparr>"
  have ssl: "applySsl e obj ?s3 = loadSsl e obj ?s3"
    using assms(1) by (simp add: applySsl_def applyPort_frame applyDocumentRoot_frame)
  let ?s4 = "fst (loadSsl e obj ?s3)"
  let ?s5 = "fst (start e ?s4)"
  let ?ev_a = "snd (applyDocumentRoot e obj s) @ snd (applyPort e obj ?s1) @ map (Log Warning) ws"
  let ?ev_b = "snd (start e ?s4) @ [portChanged (port ?s5)]"
  have run: "handleSettingsUpdate e WEBSERVER obj s = Some (?s5, ?ev_a @ snd (loadSsl e obj ?s3) @ ?ev_b)"
    by (simp add: handleSettingsUpdate_WEBSERVER n ssl)
  have a1: "installedCertificates ?ev_a = []"
    by (simp add: installedCertificates_append installedCertificates_applyDocumentRoot
          installedCertificates_applyPort installedCertificates_Log)
  have b1: "installedCertificates ?ev_b = []"
    by (simp add: installedCertificates_append installedCertificates_start)
  have a2: "filter is_fallback_report ?ev_a = []"
    using documentRoot_events [of e obj]
    by (auto simp add: applyDocumentRoot_eq applyPort_def stop_eq filter_map comp_def)
  have b2: "filter is_fallback_report ?ev_b = []"
    by (simp add: start_eq onServerStarted_eq split: option.splits)
  have b3: "server_start (port ?s5) \<in> set ?ev_b"
    by (simp add: start_eq onServerStarted_eq)
  have c3: "getCertificates (server ?s3) = getCertificates (server s)"
      "getPrivateKey (server ?s3) = getPrivateKey (server s)"
    by (simp_all add: certificates_frame applyPort_frame)
  have c5: "getCertificates (server ?s5) = getCertificates (server ?s4)"
      "getPrivateKey (server ?s5) = getPrivateKey (server ?s4)"
    by (simp_all add: start_frame)
  show ?thesis
    using run a1 b1 a2 b2 b3 c3 c5 by blast
qed

text \<open>
  Negotiation on a transport that is not listening is \<open>portAvailable\<close> on \<open>_port\<close>.
\<close>

lemma negotiate_portAvailable:
  fixes q :: quint16
  assumes "\<not> isListening (server s)" and "\<not> occupied e q"
  shows "\<exists>p b ws. portAvailable e (port s) = Some (p, b, ws) \<and>
           negotiate e s = Some (s\<lparr>port := p\<rparr>, ws) \<and> \<not> occupied e p \<and>
           (p = port s \<longleftrightarrow> \<not> occupied e (port s)) \<and>
           filter is_portChanged ws = [] \<and> signals ws = [] \<and> filter is_server_call ws = []"
proof -
  obtain k where k: "\<not> occupied e (port s + of_nat k)" "\<forall>j<k. occupied e (port s + of_nat j)"
    "probe (occupied e) (port s) [] =
       Some (port s + of_nat k, [] @ map (\<lambda>j. Log Warning (Port_in_use_will_increment (port s + of_nat j))) [0..<k])"
    using probe_first_free [of "occupied e" q "port s" "[]"] assms(2) by blast
  let ?p = "port s + of_nat k"
  let ?ws = "map (\<lambda>j. Log Warning (Port_in_use_will_increment (port s + of_nat j))) [0..<k] @
               (if ?p \<noteq> port s then [Log Warning (Requested_Port_in_use_will_use (port s) ?p)] else [])"
  have pa: "portAvailable e (port s) = Some (?p, ?p = port s, ?ws)"
    using k(3) by (simp add: portAvailable_def)
  have ng: "negotiate e s = Some (s\<lparr>port := ?p\<rparr>, ?ws)"
    using assms(1) pa by (simp add: negotiate_def)
  have same: "?p = port s \<longleftrightarrow> \<not> occupied e (port s)"
  proof
    assume "?p = port s"
    then show "\<not> occupied e (port s)" using k(1) by simp
  next
    assume f: "\<not> occupied e (port s)"
    have "k = 0"
    proof (rule ccontr)
      assume "k \<noteq> 0"
      then have "occupied e (port s + of_nat 0)" using k(2) by blast
      then show False using f by simp
    qed
    then show "?p = port s" by simp
  qed
  have q1: "filter is_portChanged ?ws = []" by (simp add: filter_map comp_def)
  have q2: "signals ?ws = []" by (simp add: signals_append signals_Log)
  have q3: "filter is_server_call ?ws = []" by (simp add: filter_map comp_def)
  show ?thesis
    by (intro exI conjI) (rule pa ng k(1) same q1 q2 q3)+
qed

text \<open>
  A whole run, in a world where some port is free. Either the port changes or the
  transport is not listening: then the handler stops if the port changes, negotiates from
  the requested port and starts a transport that is stopped. Or the port is the same and
  the transport is listening: then the handler only forwards \<open>start\<close>.
\<close>

lemma handleSettingsUpdate_run:
  fixes q :: quint16
  assumes "\<not> occupied e q"
  shows "\<exists>s' evs. handleSettingsUpdate e WEBSERVER obj s = Some (s', evs) \<and>
           filter is_portChanged evs = [portChanged (port s')] \<and>
           last evs = portChanged (port s') \<and>
           newPort s' obj = newPort s obj \<and>
           isListening (server s') \<and>
           (if port s \<noteq> newPort s obj \<or> \<not> isListening (server s)
            then (\<exists>b ws. portAvailable e (newPort s obj) = Some (port s', b, ws)) \<and>
                 \<not> occupied e (port s') \<and>
                 (port s' = newPort s obj \<longleftrightarrow> \<not> occupied e (newPort s obj)) \<and>
                 serverPort (server s') = port s' \<and>
                 filter is_server_call evs =
                   (if port s \<noteq> newPort s obj then [server_stop] else []) @ [server_start (port s')] \<and>
                 signals evs =
                   (if isListening (server s) then [stopped] else []) @ [started (port s')]
            else port s' = port s \<and>
                 serverPort (server s') = serverPort (server s) \<and>
                 filter is_server_call evs = [server_start (port s)] \<and>
                 signals evs = [])"
proof -
  let ?s1 = "fst (applyDocumentRoot e obj s)"
  let ?s2 = "fst (applyPort e obj ?s1)"
  show ?thesis
  proof (cases "port s \<noteq> newPort s obj \<or> \<not> isListening (server s)")
    case True
    have l2: "\<not> isListening (server ?s2)"
      using True by (auto simp add: applyPort_def stop_eq applyDocumentRoot_frame)
    have p2: "port ?s2 = newPort s obj"
      by (simp add: applyPort_def stop_eq applyDocumentRoot_frame)
    have sig2: "signals (snd (applyPort e obj ?s1)) =
        (if port s \<noteq> newPort s obj \<and> isListening (server s) then [stopped] else [])"
      by (simp add: applyPort_def stop_eq applyDocumentRoot_frame)
    have call2: "filter is_server_call (snd (applyPort e obj ?s1)) =
        (if port s \<noteq> newPort s obj then [server_stop] else [])"
      by (simp add: applyPort_def stop_eq applyDocumentRoot_frame)
    obtain p b ws where pa: "portAvailable e (port ?s2) = Some (p, b, ws)"
        and n: "negotiate e ?s2 = Some (?s2\<lparr>port := p\<rparr>, ws)"
        and free: "\<not> occupied e p"
        and adj: "p = port ?s2 \<longleftrightarrow> \<not> occupied e (port ?s2)"
        and quiet: "filter is_portChanged ws = []" "signals ws = []" "filter is_server_call ws = []"
      using negotiate_portAvailable [OF l2 assms] by blast
    let ?s4 = "fst (applySsl e obj (?s2\<lparr>port := p\<rparr>))"
    let ?s5 = "fst (start e ?s4)"
    let ?evs = "snd (applyDocumentRoot e obj s) @ snd (applyPort e obj ?s1) @ ws @
                  snd (applySsl e obj (?s2\<lparr>port := p\<rparr>)) @ snd (start e ?s4) @ [portChanged (port ?s5)]"
    have run: "handleSettingsUpdate e WEBSERVER obj s = Some (?s5, ?evs)"
      by (simp add: handleSettingsUpdate_WEBSERVER n)
    have s4: "\<not> isListening (server ?s4)" "\<not> occupied e (port ?s4)"
      using l2 free by (simp_all add: applySsl_frame port_applySsl)
    have p5: "port ?s5 = p" by (simp add: port_start port_applySsl)
    have once: "filter is_portChanged ?evs = [portChanged (port ?s5)]"
      by (simp add: portChanged_applyDocumentRoot portChanged_applyPort portChanged_applySsl
            portChanged_start quiet)
    have lst: "last ?evs = portChanged (port ?s5)" by simp
    have np: "newPort ?s5 obj = newPort s obj"
      by (simp add: start_frame applySsl_frame applyDocumentRoot_frame applyPort_frame port_update_frame)
    have neg: "\<exists>b ws. portAvailable e (newPort s obj) = Some (port ?s5, b, ws)"
      using pa unfolding p2 p5 by blast
    have free5: "\<not> occupied e (port ?s5)" using free unfolding p5 .
    have adj5: "port ?s5 = newPort s obj \<longleftrightarrow> \<not> occupied e (newPort s obj)"
      using adj unfolding p2 p5 .
    have bound: "isListening (server ?s5)" "serverPort (server ?s5) = port ?s5"
      using start_free(1,2) [OF s4] by (simp_all add: port_start)
    have calls: "filter is_server_call ?evs =
        (if port s \<noteq> newPort s obj then [server_stop] else []) @ [server_start (port ?s5)]"
      using start_free(4) [OF s4]
      by (simp add: calls_applyDocumentRoot calls_applySsl call2 quiet port_start)
    have sg: "signals ?evs = (if isListening (server s) then [stopped] else []) @ [started (port ?s5)]"
      using True start_free(3) [OF s4]
      by (simp add: signals_append signals_applyDocumentRoot signals_applySsl sig2 quiet port_start)
    have "(\<exists>b ws. portAvailable e (newPort s obj) = Some (port ?s5, b, ws)) \<and>
                 \<not> occupied e (port ?s5) \<and>
                 (port ?s5 = newPort s obj \<longleftrightarrow> \<not> occupied e (newPort s obj)) \<and>
                 serverPort (server ?s5) = port ?s5 \<and>
                 filter is_server_call ?evs =
                   (if port s \<noteq> newPort s obj then [server_stop] else []) @ [server_start (port ?s5)] \<and>
                 signals ?evs =
                   (if isListening (server s) then [stopped] else []) @ [started (port ?s5)]"
      using neg free5 adj5 bound(2) calls sg by (intro conjI)
    note body = this
    have tail: "if port s \<noteq> newPort s obj \<or> \<not> isListening (server s)
            then (\<exists>b ws. portAvailable e (newPort s obj) = Some (port ?s5, b, ws)) \<and>
                 \<not> occupied e (port ?s5) \<and>
                 (port ?s5 = newPort s obj \<longleftrightarrow> \<not> occupied e (newPort s obj)) \<and>
                 serverPort (server ?s5) = port ?s5 \<and>
                 filter is_server_call ?evs =
                   (if port s \<noteq> newPort s obj then [server_stop] else []) @ [server_start (port ?s5)] \<and>
                 signals ?evs =
                   (if isListening (server s) then [stopped] else []) @ [started (port ?s5)]
            else port ?s5 = port s \<and>
                 serverPort (server ?s5) = serverPort (server s) \<and>
                 filter is_server_call ?evs = [server_start (port s)] \<and>
                 signals ?evs = []"
      unfolding if_P [OF True] by (rule body)
    show ?thesis by (intro exI conjI) (rule run once lst np bound(1) tail)+
  next
    case False
    then have same: "port s = newPort s obj" and l: "isListening (server s)" by simp_all
    have ap: "applyPort e obj ?s1 = (?s1, [])"
      using same by (simp add: applyPort_def applyDocumentRoot_frame)
    have n: "negotiate e ?s1 = Some (?s1, [])"
      using l by (simp add: negotiate_def applyDocumentRoot_frame)
    let ?s4 = "fst (applySsl e obj ?s1)"
    have l4: "isListening (server ?s4)" "serverPort (server ?s4) = serverPort (server s)" "port ?s4 = port s"
      using l by (simp_all add: applySsl_frame port_applySsl applyDocumentRoot_frame)
    have st: "start e ?s4 = (?s4, [server_start (port s)])"
      using start_listening [OF l4(1), of e] l4(3) by simp
    let ?evs = "snd (applyDocumentRoot e obj s) @ snd (applySsl e obj ?s1) @ [server_start (port s), portChanged (port ?s4)]"
    have run: "handleSettingsUpdate e WEBSERVER obj s = Some (?s4, ?evs)"
      by (simp add: handleSettingsUpdate_WEBSERVER ap n st)
    have once: "filter is_portChanged ?evs = [portChanged (port ?s4)]"
      by (simp add: portChanged_applyDocumentRoot portChanged_applySsl)
    have lst: "last ?evs = portChanged (port ?s4)" by simp
    have np: "newPort ?s4 obj = newPort s obj"
      by (simp add: applySsl_frame applyDocumentRoot_frame)
    have calls: "filter is_server_call ?evs = [server_start (port s)]"
      by (simp add: calls_applyDocumentRoot calls_applySsl)
    have sg: "signals ?evs = []"
      by (simp add: signals_append signals_applyDocumentRoot signals_applySsl)
    have "port ?s4 = port s \<and>
                 serverPort (server ?s4) = serverPort (server s) \<and>
                 filter is_server_call ?evs = [server_start (port s)] \<and>
                 signals ?evs = []"
      using l4(2,3) calls sg by (intro conjI)
    note body = this
    have tail: "if port s \<noteq> newPort s obj \<or> \<not> isListening (server s)
            then (\<exists>b ws. portAvailable e (newPort s obj) = Some (port ?s4, b, ws)) \<and>
                 \<not> occupied e (port ?s4) \<and>
                 (port ?s4 = newPort s obj \<longleftrightarrow> \<not> occupied e (newPort s obj)) \<and>
                 serverPort (server ?s4) = port ?s4 \<and>
                 filter is_server_call ?evs =
                   (if port s \<noteq> newPort s obj then [server_stop] else []) @ [server_start (port ?s4)] \<and>
                 signals ?evs =
                   (if isListening (server s) then [stopped] else []) @ [started (port ?s4)]
            else port ?s4 = port s \<and>
                 serverPort (server ?s4) = serverPort (server s) \<and>
                 filter is_server_call ?evs = [server_start (port s)] \<and>
                 signals ?evs = []"
      unfolding if_not_P [OF False] by (rule body)
    show ?thesis by (intro exI conjI) (rule run once lst np l4(1) tail)+
  qed
qed

section \<open>C1: the port that negotiation returns\<close>

text \<open>
  C1 (as amended). Whenever some port from \<open>p\<close> up to 65535 is free, \<open>portAvailable\<close>
  returns; the port it leaves is the smallest free port at or above \<open>p\<close>; and the
  \<open>bool\<close> it returns is true exactly when that port is \<open>p\<close> itself, so it says
  "the requested port was available", the opposite of "was adjusted". In particular a
  free \<open>p\<close> gives \<open>p\<close> and true, and when every port from \<open>p\<close> below \<open>q\<close> is taken
  and \<open>q\<close> is free the result is \<open>q\<close>, with false unless \<open>q\<close> is \<open>p\<close>.
\<close>

theorem portAvailable_smallest_free:
  fixes p q :: quint16
  assumes "p \<le> q" and "\<not> occupied e q"
  shows "\<exists>r b evs. portAvailable e p = Some (r, b, evs) \<and>
           p \<le> r \<and> r \<le> q \<and> \<not> occupied e r \<and>
           (\<forall>x. p \<le> x \<and> x < r \<longrightarrow> occupied e x) \<and>
           (b \<longleftrightarrow> r = p) \<and>
           (\<not> occupied e p \<longrightarrow> r = p \<and> b) \<and>
           ((\<forall>x. p \<le> x \<and> x < q \<longrightarrow> occupied e x) \<longrightarrow> r = q \<and> (b \<longleftrightarrow> q = p))"
proof -
  obtain r evs where r: "probe (occupied e) p [] = Some (r, evs)" "p \<le> r" "r \<le> q"
      "\<not> occupied e r" "\<forall>x. p \<le> x \<and> x < r \<longrightarrow> occupied e x"
    using probe_smallest_above [of p q "occupied e" "[]"] assms by blast
  have free_p: "\<not> occupied e p \<longrightarrow> r = p"
    using r(2,5) by (metis order_le_less order_refl)
  have upto_q: "(\<forall>x. p \<le> x \<and> x < q \<longrightarrow> occupied e x) \<longrightarrow> r = q"
    using r(2,3,4) by (metis order_le_less)
  have run: "portAvailable e p =
      Some (r, r = p, if r = p then evs else evs @ [Log Warning (Requested_Port_in_use_will_use p r)])"
    using r(1) by (simp add: portAvailable_def)
  have c6: "(r = p) \<longleftrightarrow> r = p" by simp
  have c7: "\<not> occupied e p \<longrightarrow> r = p \<and> (r = p)" using free_p by simp
  have c8: "(\<forall>x. p \<le> x \<and> x < q \<longrightarrow> occupied e x) \<longrightarrow> r = q \<and> ((r = p) \<longleftrightarrow> q = p)"
    using upto_q by simp
  show ?thesis
    by (intro exI conjI) (rule run r(2) r(3) r(4) r(5) c6 c7 c8)+
qed

text \<open>
  C1, witness: ports 8090 and 8091 are taken, 8092 is free; the request for 8090 ends on
  8092 with \<open>false\<close>, after two collision warnings and the final warning.
\<close>

theorem portAvailable_smallest_free_witness:
  "(8090 :: quint16) \<le> 8092 \<and>
   \<not> occupied (world (\<lambda>p. p = 8090 \<or> p = 8091) no_certs no_key 0) 8092 \<and>
   portAvailable (world (\<lambda>p. p = 8090 \<or> p = 8091) no_certs no_key 0) 8090 =
     Some (8092, False,
       [Log Warning (Port_in_use_will_increment 8090),
        Log Warning (Port_in_use_will_increment 8091),
        Log Warning (Requested_Port_in_use_will_use 8090 8092)])"
proof -
  let ?e = "world (\<lambda>p. p = 8090 \<or> p = 8091) no_certs no_key 0"
  have run: "portAvailable ?e 8090 =
     Some (8092, False,
       [Log Warning (Port_in_use_will_increment 8090),
        Log Warning (Port_in_use_will_increment 8091),
        Log Warning (Requested_Port_in_use_will_use 8090 8092)])"
    by (simp add: world_def portAvailable_def probe.simps)
  have le: "(8090 :: quint16) \<le> 8092" by simp
  have free: "\<not> occupied ?e 8092"
    by (simp add: world_def)
  from portAvailable_smallest_free [OF le free]
  obtain r b evs where "portAvailable ?e 8090 = Some (r, b, evs)" "r \<le> 8092" "b \<longleftrightarrow> r = 8090"
    by (elim exE conjE)
  then have "r = 8092 \<and> \<not> b" using run by simp
  then show ?thesis using le free run by (intro conjI)
qed

text \<open>
  C1 as stated fails: on a free port 8090 the code returns the port 8090 with \<open>true\<close>,
  not with \<open>false\<close>; and with 65534 and 65535 taken, the request for 65534 ends on
  port 0, which is not at or above 65534.
\<close>

theorem portAvailable_free_port_returns_true:
  "\<not> occupied (world (\<lambda>p. False) no_certs no_key 0) 8090 \<and>
   portAvailable (world (\<lambda>p. False) no_certs no_key 0) 8090 = Some (8090, True, []) \<and>
   portAvailable (world (\<lambda>p. False) no_certs no_key 0) 8090 \<noteq> Some (8090, False, []) \<and>
   portAvailable (world (\<lambda>p. p = 65534 \<or> p = 65535) no_certs no_key 0) 65534 =
     Some (0, False,
       [Log Warning (Port_in_use_will_increment 65534),
        Log Warning (Port_in_use_will_increment 65535),
        Log Warning (Requested_Port_in_use_will_use 65534 0)])"
  by (simp add: world_def portAvailable_def probe.simps)

section \<open>C7: the negotiated port against the requested port\<close>

text \<open>
  C7 (as amended). Whenever some port is free, negotiation returns, and the port it
  leaves is at or above the requested port exactly when some port from the requested one
  up to 65535 is free; when all of these are taken the counter wraps and the port left
  is below the requested one.
\<close>

theorem portAvailable_at_or_above_iff:
  fixes p q :: quint16
  assumes "\<not> occupied e q"
  shows "\<exists>r b evs. portAvailable e p = Some (r, b, evs) \<and>
           (p \<le> r \<longleftrightarrow> (\<exists>x. p \<le> x \<and> \<not> occupied e x))"
proof -
  obtain r evs where r: "probe (occupied e) p [] = Some (r, evs)"
    using probe_returns [of "occupied e" q p "[]"] assms by blast
  have free: "\<not> occupied e r" by (rule probe_free [OF r])
  have above: "p \<le> r" if "p \<le> x" "\<not> occupied e x" for x
    using probe_smallest_above [of p x "occupied e" "[]"] that r by auto
  have iff: "p \<le> r \<longleftrightarrow> (\<exists>x. p \<le> x \<and> \<not> occupied e x)"
    using free above by blast
  have "\<exists>b evs'. portAvailable e p = Some (r, b, evs')"
    using r by (auto simp add: portAvailable_def)
  then show ?thesis using iff by blast
qed

text \<open>
  C7, witness: the specification's scenario. Ports 80 to 82 are taken; the request for
  80 ends on 83.
\<close>

theorem portAvailable_at_or_above_iff_witness:
  "\<not> occupied (world (\<lambda>p. p = 80 \<or> p = 81 \<or> p = 82) no_certs no_key 0) 83 \<and>
   portAvailable (world (\<lambda>p. p = 80 \<or> p = 81 \<or> p = 82) no_certs no_key 0) 80 =
     Some (83, False,
       [Log Warning (Port_in_use_will_increment 80),
        Log Warning (Port_in_use_will_increment 81),
        Log Warning (Port_in_use_will_increment 82),
        Log Warning (Requested_Port_in_use_will_use 80 83)]) \<and>
   (\<exists>x :: quint16. 80 \<le> x \<and> \<not> occupied (world (\<lambda>p. p = 80 \<or> p = 81 \<or> p = 82) no_certs no_key 0) x)"
proof -
  have run: "portAvailable (world (\<lambda>p. p = 80 \<or> p = 81 \<or> p = 82) no_certs no_key 0) 80 =
     Some (83, False,
       [Log Warning (Port_in_use_will_increment 80),
        Log Warning (Port_in_use_will_increment 81),
        Log Warning (Port_in_use_will_increment 82),
        Log Warning (Requested_Port_in_use_will_use 80 83)])"
    by (simp add: world_def portAvailable_def probe.simps)
  have free: "\<not> occupied (world (\<lambda>p. p = 80 \<or> p = 81 \<or> p = 82) no_certs no_key 0) 83"
    by (simp add: world_def)
  have le: "(80 :: quint16) \<le> 83" by simp
  show ?thesis
    using portAvailable_at_or_above_iff [OF free, of 80] free run le by simp
qed

text \<open>
  C7 as stated fails: with port 65535 requested and taken and port 0 free, the counter
  wraps and negotiation returns port 0, which is below 65535.
\<close>

theorem portAvailable_wraps_below_requested:
  "portAvailable (world (\<lambda>p. p = 65535) no_certs no_key 0) 65535 =
     Some (0, False,
       [Log Warning (Port_in_use_will_increment 65535),
        Log Warning (Requested_Port_in_use_will_use 65535 0)]) \<and>
   \<not> ((65535 :: quint16) \<le> 0)"
  by (simp add: world_def portAvailable_def probe.simps)

section \<open>C10: settings of another type\<close>

text \<open>
  C10. A settings update of any type other than \<open>WEBSERVER\<close> returns, leaves the whole
  state of the server as it was (port, document root, certificates, key, listener, the
  service register) and reports, calls and emits nothing.
\<close>

theorem handleSettingsUpdate_other_type:
  assumes "type \<noteq> WEBSERVER"
  shows "handleSettingsUpdate e type obj s = Some (s, [])"
  using assms by (simp add: handleSettingsUpdate_def)

text \<open>
  C10, witness: an update of another type on a fresh instance.
\<close>

theorem handleSettingsUpdate_other_type_witness:
  "OTHER 3 \<noteq> WEBSERVER \<and>
   handleSettingsUpdate (world (\<lambda>p. False) no_certs no_key 0) (OTHER 3) (ports_only 8090 8092)
       (new_WebServer False 8090) =
     Some (new_WebServer False 8090, [])"
  using handleSettingsUpdate_other_type [of "OTHER 3" "world (\<lambda>p. False) no_certs no_key 0"
      "ports_only 8090 8092" "new_WebServer False 8090"]
  by simp

section \<open>C9: the port is published once\<close>

text \<open>
  C9. Every update of the webserver settings, in a world where some port is free (so
  that the probe loop ends), returns and emits \<open>portChanged\<close> exactly once, as its last
  event, with the port \<open>_port\<close> then holds, and that port is the effective one. When the
  port changes or the transport was not listening, it is the port that \<open>portAvailable\<close>
  returns for the requested port, it is free of other processes, and the transport has
  been started on it (after a stop, if the port changed) and listens there. When the port
  is the same and the transport was listening, the handler only forwards \<open>start\<close>;
  \<open>_port\<close> and the port the transport listens on are what they were, and the unchanged
  port is published all the same.
\<close>

theorem handleSettingsUpdate_portChanged_once:
  fixes q :: quint16
  assumes "\<not> occupied e q"
  shows "\<exists>s' evs. handleSettingsUpdate e WEBSERVER obj s = Some (s', evs) \<and>
           filter is_portChanged evs = [portChanged (port s')] \<and>
           last evs = portChanged (port s') \<and>
           (if port s \<noteq> newPort s obj \<or> \<not> isListening (server s)
            then (\<exists>b ws. portAvailable e (newPort s obj) = Some (port s', b, ws)) \<and>
                 \<not> occupied e (port s') \<and>
                 isListening (server s') \<and> serverPort (server s') = port s' \<and>
                 filter is_server_call evs =
                   (if port s \<noteq> newPort s obj then [server_stop] else []) @ [server_start (port s')] \<and>
                 signals evs =
                   (if isListening (server s) then [stopped] else []) @ [started (port s')]
            else port s' = port s \<and>
                 isListening (server s') \<and> serverPort (server s') = serverPort (server s) \<and>
                 filter is_server_call evs = [server_start (port s)] \<and>
                 signals evs = [])"
proof -
  obtain s' evs where run: "handleSettingsUpdate e WEBSERVER obj s = Some (s', evs)"
    and once: "filter is_portChanged evs = [portChanged (port s')]"
    and lst: "last evs = portChanged (port s')"
    and l: "isListening (server s')"
    and c: "if port s \<noteq> newPort s obj \<or> \<not> isListening (server s)
            then (\<exists>b ws. portAvailable e (newPort s obj) = Some (port s', b, ws)) \<and>
                 \<not> occupied e (port s') \<and>
                 (port s' = newPort s obj \<longleftrightarrow> \<not> occupied e (newPort s obj)) \<and>
                 serverPort (server s') = port s' \<and>
                 filter is_server_call evs =
                   (if port s \<noteq> newPort s obj then [server_stop] else []) @ [server_start (port s')] \<and>
                 signals evs =
                   (if isListening (server s) then [stopped] else []) @ [started (port s')]
            else port s' = port s \<and>
                 serverPort (server s') = serverPort (server s) \<and>
                 filter is_server_call evs = [server_start (port s)] \<and>
                 signals evs = []"
    using handleSettingsUpdate_run [OF assms, of obj s] by (elim exE conjE)
  have tail: "if port s \<noteq> newPort s obj \<or> \<not> isListening (server s)
            then (\<exists>b ws. portAvailable e (newPort s obj) = Some (port s', b, ws)) \<and>
                 \<not> occupied e (port s') \<and>
                 isListening (server s') \<and> serverPort (server s') = port s' \<and>
                 filter is_server_call evs =
                   (if port s \<noteq> newPort s obj then [server_stop] else []) @ [server_start (port s')] \<and>
                 signals evs =
                   (if isListening (server s) then [stopped] else []) @ [started (port s')]
            else port s' = port s \<and>
                 isListening (server s') \<and> serverPort (server s') = serverPort (server s) \<and>
                 filter is_server_call evs = [server_start (port s)] \<and>
                 signals evs = []"
    using c l by (simp split: if_splits)
  show ?thesis by (intro exI conjI) (rule run once lst tail)+
qed

text \<open>
  C9, witness. The settings are applied again to an instance that already listens on
  the port they name: nothing changes, and \<open>portChanged 8090\<close> is emitted. And a fresh
  instance is told to use the taken port 8090: it listens on 8091 and publishes 8091.
\<close>

theorem handleSettingsUpdate_portChanged_once_witness:
  "\<not> occupied (world (\<lambda>p. False) no_certs no_key 0) 8090 \<and>
   handleSettingsUpdate (world (\<lambda>p. False) no_certs no_key 0) WEBSERVER (ports_only 8090 8092)
       (running_WebServer False 8090 [] (no_key [] [])) =
     Some (running_WebServer False 8090 [] (no_key [] []),
       [Log Info Apply_Webserver_settings, Log Info (Set_document_root_to '':/webconfig''),
        setBaseUrl '':/webconfig'', server_start 8090, portChanged 8090]) \<and>
   \<not> occupied (world (\<lambda>p. p = 8090) no_certs no_key 0) 8091 \<and>
   handleSettingsUpdate (world (\<lambda>p. p = 8090) no_certs no_key 0) WEBSERVER (ports_only 8090 8092)
       (new_WebServer False 8090) =
     Some (running_WebServer False 8091 [] (no_key [] []),
       [Log Info Apply_Webserver_settings, Log Info (Set_document_root_to '':/webconfig''),
        setBaseUrl '':/webconfig'', server_stop,
        Log Warning (Port_in_use_will_increment 8090),
        Log Warning (Requested_Port_in_use_will_use 8090 8091),
        server_start 8091, emitted (started 8091), Log Info (Started_on_port 8091),
        registerService 8091, stateChange True, portChanged 8091]) \<and>
   (\<exists>s' evs. handleSettingsUpdate (world (\<lambda>p. False) no_certs no_key 0) WEBSERVER (ports_only 8090 8092)
       (running_WebServer False 8090 [] (no_key [] [])) = Some (s', evs) \<and>
      filter is_portChanged evs = [portChanged 8090] \<and> port s' = 8090 \<and>
      isListening (server s') \<and> serverPort (server s') = 8090 \<and> signals evs = []) \<and>
   (\<exists>s' evs. handleSettingsUpdate (world (\<lambda>p. p = 8090) no_certs no_key 0) WEBSERVER (ports_only 8090 8092)
       (new_WebServer False 8090) = Some (s', evs) \<and>
      filter is_portChanged evs = [portChanged 8091] \<and> port s' = 8091 \<and>
      isListening (server s') \<and> serverPort (server s') = 8091 \<and> signals evs = [started 8091])"
proof -
  let ?e = "world (\<lambda>p. False) no_certs no_key 0"
  let ?s = "running_WebServer False 8090 [] (no_key [] [])"
  let ?e' = "world (\<lambda>p. p = 8090) no_certs no_key 0"
  let ?t = "new_WebServer False 8090"
  let ?obj = "ports_only 8090 8092"
  have free: "\<not> occupied ?e 8090" by (simp add: world_def)
  have run: "handleSettingsUpdate ?e WEBSERVER ?obj ?s =
     Some (?s,
       [Log Info Apply_Webserver_settings, Log Info (Set_document_root_to '':/webconfig''),
        setBaseUrl '':/webconfig'', server_start 8090, portChanged 8090])"
    by (simp add: run_defs example_defs)
  have st: "port ?s = newPort ?s ?obj" "isListening (server ?s)" "port ?s = 8090"
      "serverPort (server ?s) = 8090"
    by (simp_all add: run_defs example_defs)
  from handleSettingsUpdate_portChanged_once [OF free, of ?obj ?s]
  obtain s' evs where r: "handleSettingsUpdate ?e WEBSERVER ?obj ?s = Some (s', evs)"
    and o: "filter is_portChanged evs = [portChanged (port s')]"
    and c: "if port ?s \<noteq> newPort ?s ?obj \<or> \<not> isListening (server ?s)
            then (\<exists>b ws. portAvailable ?e (newPort ?s ?obj) = Some (port s', b, ws)) \<and>
                 \<not> occupied ?e (port s') \<and>
                 isListening (server s') \<and> serverPort (server s') = port s' \<and>
                 filter is_server_call evs =
                   (if port ?s \<noteq> newPort ?s ?obj then [server_stop] else []) @ [server_start (port s')] \<and>
                 signals evs =
                   (if isListening (server ?s) then [stopped] else []) @ [started (port s')]
            else port s' = port ?s \<and>
                 isListening (server s') \<and> serverPort (server s') = serverPort (server ?s) \<and>
                 filter is_server_call evs = [server_start (port ?s)] \<and>
                 signals evs = []"
    by (elim exE conjE)
  have c': "port s' = 8090" "isListening (server s')" "serverPort (server s') = 8090" "signals evs = []"
    using c st by simp_all
  have o': "filter is_portChanged evs = [portChanged 8090]" using o c'(1) by simp
  from r o' c' have first: "\<exists>s' evs. handleSettingsUpdate ?e WEBSERVER ?obj ?s = Some (s', evs) \<and>
      filter is_portChanged evs = [portChanged 8090] \<and> port s' = 8090 \<and>
      isListening (server s') \<and> serverPort (server s') = 8090 \<and> signals evs = []"
    by blast
  have free': "\<not> occupied ?e' 8091" by (simp add: world_def)
  have run': "handleSettingsUpdate ?e' WEBSERVER ?obj ?t =
     Some (running_WebServer False 8091 [] (no_key [] []),
       [Log Info Apply_Webserver_settings, Log Info (Set_document_root_to '':/webconfig''),
        setBaseUrl '':/webconfig'', server_stop,
        Log Warning (Port_in_use_will_increment 8090),
        Log Warning (Requested_Port_in_use_will_use 8090 8091),
        server_start 8091, emitted (started 8091), Log Info (Started_on_port 8091),
        registerService 8091, stateChange True, portChanged 8091])"
    by (simp add: run_defs example_defs probe.simps)
  have st': "port ?t \<noteq> newPort ?t ?obj" "\<not> isListening (server ?t)"
    by (simp_all add: run_defs)
  from handleSettingsUpdate_portChanged_once [OF free', of ?obj ?t]
  obtain t' evt where r2: "handleSettingsUpdate ?e' WEBSERVER ?obj ?t = Some (t', evt)"
    and o2: "filter is_portChanged evt = [portChanged (port t')]"
    and c2: "if port ?t \<noteq> newPort ?t ?obj \<or> \<not> isListening (server ?t)
            then (\<exists>b ws. portAvailable ?e' (newPort ?t ?obj) = Some (port t', b, ws)) \<and>
                 \<not> occupied ?e' (port t') \<and>
                 isListening (server t') \<and> serverPort (server t') = port t' \<and>
                 filter is_server_call evt =
                   (if port ?t \<noteq> newPort ?t ?obj then [server_stop] else []) @ [server_start (port t')] \<and>
                 signals evt =
                   (if isListening (server ?t) then [stopped] else []) @ [started (port t')]
            else port t' = port ?t \<and>
                 isListening (server t') \<and> serverPort (server t') = serverPort (server ?t) \<and>
                 filter is_server_call evt = [server_start (port ?t)] \<and>
                 signals evt = []"
    by (elim exE conjE)
  from r2 run' have "t' = running_WebServer False 8091 [] (no_key [] [])" by simp
  then have pt: "port t' = 8091" by (simp add: example_defs)
  have d: "isListening (server t')" "serverPort (server t') = 8091" "signals evt = [started 8091]"
    using c2 st' pt by simp_all
  have o2': "filter is_portChanged evt = [portChanged 8091]" using o2 pt by simp
  from r2 o2' pt d have second: "\<exists>s' evs. handleSettingsUpdate ?e' WEBSERVER ?obj ?t = Some (s', evs) \<and>
      filter is_portChanged evs = [portChanged 8091] \<and> port s' = 8091 \<and>
      isListening (server s') \<and> serverPort (server s') = 8091 \<and> signals evs = [started 8091]"
    by blast
  from free run free' run' first second show ?thesis by (intro conjI)
qed

section \<open>C5: a new port stops the listener first\<close>

text \<open>
  C5. When the requested port differs from \<open>_port\<close> (and some port is free, so that the
  run returns), the run is: what the document root reports and calls, then
  \<open>_server->stop()\<close>, then everything else. Negotiation, the TLS block and the start
  all come after the stop. The transport is called exactly twice, once to stop and then
  once to start on the port left by negotiation; its signals are "stopped" if it was
  listening, then "started" on that port.
\<close>

theorem handleSettingsUpdate_port_change_stops_first:
  fixes q :: quint16
  assumes "port s \<noteq> newPort s obj" and "\<not> occupied e q"
  shows "\<exists>s' evs pre rest. handleSettingsUpdate e WEBSERVER obj s = Some (s', evs) \<and>
           evs = pre @ server_stop # rest \<and>
           list_all is_documentRoot_event pre \<and>
           filter is_server_call evs = [server_stop, server_start (port s')] \<and>
           signals evs = (if isListening (server s) then [stopped] else []) @ [started (port s')]"
proof -
  let ?s1 = "fst (applyDocumentRoot e obj s)"
  let ?s2 = "fst (applyPort e obj ?s1)"
  have differs: "port ?s1 \<noteq> newPort ?s1 obj" using assms(1) by (simp add: applyDocumentRoot_frame)
  have ev2: "snd (applyPort e obj ?s1) =
      server_stop # (if isListening (server s) then [emitted stopped, Log Info Stopped, stateChange False] else [])"
    using differs by (simp add: applyPort_def stop_eq applyDocumentRoot_frame)
  have s2: "\<not> isListening (server ?s2)"
    using differs by (simp add: applyPort_def stop_eq)
  obtain p ws where n: "negotiate e ?s2 = Some (?s2\<lparr>port := p\<rparr>, map (Log Warning) ws)"
      and free: "\<not> occupied e p"
    using negotiate_cases [OF assms(2), of ?s2] s2 by blast
  let ?s4 = "fst (applySsl e obj (?s2\<lparr>port := p\<rparr>))"
  let ?s5 = "fst (start e ?s4)"
  let ?rest = "(if isListening (server s) then [emitted stopped, Log Info Stopped, stateChange False] else []) @
                map (Log Warning) ws @ snd (applySsl e obj (?s2\<lparr>port := p\<rparr>)) @ snd (start e ?s4) @
                [portChanged (port ?s5)]"
  let ?evs = "snd (applyDocumentRoot e obj s) @ server_stop # ?rest"
  have run: "handleSettingsUpdate e WEBSERVER obj s = Some (?s5, ?evs)"
    by (simp add: handleSettingsUpdate_WEBSERVER n ev2)
  have s4: "\<not> isListening (server ?s4)" "port ?s4 = p"
    using s2 by (simp_all add: applySsl_frame port_applySsl)
  have p5: "port ?s5 = p" using s4 by (simp add: port_start)
  have st: "signals (snd (start e ?s4)) = [started p]"
      "filter is_server_call (snd (start e ?s4)) = [server_start p]"
    using start_free [of ?s4 e] s4 free by simp_all
  have calls: "filter is_server_call ?evs = [server_stop, server_start (port ?s5)]"
    by (simp add: calls_applyDocumentRoot calls_applySsl st p5 filter_map comp_def)
  have sigs: "signals ?evs = (if isListening (server s) then [stopped] else []) @ [started (port ?s5)]"
    by (simp add: signals_append signals_applyDocumentRoot signals_applySsl signals_Log st p5)
  show ?thesis
    using run documentRoot_events_only [of e obj s] calls sigs by blast
qed

text \<open>
  C5, witness: an instance listening on 8090 is told to use 8095, which is taken. It
  stops, negotiates 8096 and starts there.
\<close>

theorem handleSettingsUpdate_port_change_stops_first_witness:
  "port (running_WebServer False 8090 [] (no_key [] [])) \<noteq>
     newPort (running_WebServer False 8090 [] (no_key [] [])) (ports_only 8095 8092) \<and>
   \<not> occupied (world (\<lambda>p. p = 8095) no_certs no_key 0) 8096 \<and>
   handleSettingsUpdate (world (\<lambda>p. p = 8095) no_certs no_key 0) WEBSERVER (ports_only 8095 8092)
       (running_WebServer False 8090 [] (no_key [] [])) =
     Some (running_WebServer False 8096 [] (no_key [] []),
       [Log Info Apply_Webserver_settings, Log Info (Set_document_root_to '':/webconfig''),
        setBaseUrl '':/webconfig''] @
       server_stop #
       [emitted stopped, Log Info Stopped, stateChange False,
        Log Warning (Port_in_use_will_increment 8095),
        Log Warning (Requested_Port_in_use_will_use 8095 8096),
        server_start 8096, emitted (started 8096), Log Info (Started_on_port 8096),
        delete_serviceRegister, registerService 8096, stateChange True, portChanged 8096]) \<and>
   (\<exists>s' evs. handleSettingsUpdate (world (\<lambda>p. p = 8095) no_certs no_key 0) WEBSERVER (ports_only 8095 8092)
       (running_WebServer False 8090 [] (no_key [] [])) = Some (s', evs) \<and>
      filter is_server_call evs = [server_stop, server_start 8096] \<and>
      signals evs = [stopped, started 8096])"
proof -
  let ?e = "world (\<lambda>p. p = 8095) no_certs no_key 0"
  let ?s = "running_WebServer False 8090 [] (no_key [] [])"
  have differs: "port ?s \<noteq> newPort ?s (ports_only 8095 8092)"
    by (simp add: run_defs example_defs)
  have free: "\<not> occupied ?e 8096" by (simp add: world_def)
  have run: "handleSettingsUpdate ?e WEBSERVER (ports_only 8095 8092) ?s =
     Some (running_WebServer False 8096 [] (no_key [] []),
       [Log Info Apply_Webserver_settings, Log Info (Set_document_root_to '':/webconfig''),
        setBaseUrl '':/webconfig''] @
       server_stop #
       [emitted stopped, Log Info Stopped, stateChange False,
        Log Warning (Port_in_use_will_increment 8095),
        Log Warning (Requested_Port_in_use_will_use 8095 8096),
        server_start 8096, emitted (started 8096), Log Info (Started_on_port 8096),
        delete_serviceRegister, registerService 8096, stateChange True, portChanged 8096])"
    by (simp add: run_defs example_defs probe.simps)
  from handleSettingsUpdate_port_change_stops_first [OF differs free]
  obtain s' evs where r: "handleSettingsUpdate ?e WEBSERVER (ports_only 8095 8092) ?s = Some (s', evs)"
    and c: "filter is_server_call evs = [server_stop, server_start (port s')]"
    and g: "signals evs = (if isListening (server ?s) then [stopped] else []) @ [started (port s')]"
    by (elim exE conjE)
  from r run have "s' = running_WebServer False 8096 [] (no_key [] [])" by simp
  then have "port s' = 8096" by (simp add: example_defs)
  with c g have c': "filter is_server_call evs = [server_stop, server_start 8096]"
    and g': "signals evs = [stopped, started 8096]"
    by (simp_all add: example_defs)
  from r c' g' have "\<exists>s' evs. handleSettingsUpdate ?e WEBSERVER (ports_only 8095 8092) ?s = Some (s', evs) \<and>
      filter is_server_call evs = [server_stop, server_start 8096] \<and>
      signals evs = [stopped, started 8096]"
    by blast
  with differs free run show ?thesis by (intro conjI)
qed

section \<open>C2: the same settings twice\<close>




section \<open>C3: the two halves of the identity\<close>

text \<open>
  C3 (as amended). On a TLS instance (in a world where some port is free) the run leaves
  as certificate sequence the filtered list of the certificate file when that list is
  not empty, and the previous sequence otherwise; and as private key the parsed key when
  it is not null, and the previous key otherwise. Each half is decided on its own: new
  certificates may end beside the old key, and a new key beside the old certificates.
\<close>

theorem handleSettingsUpdate_installs_each_half_alone:
  fixes q :: quint16
  assumes "useSsl s" and "\<not> occupied e q"
  shows "\<exists>s' evs. handleSettingsUpdate e WEBSERVER obj s = Some (s', evs) \<and>
           getCertificates (server s') =
             (if filter (\<lambda>c. \<not> cert_isNull c \<and> date (currentDateTime e) < date (expiryDate c))
                   (fromDevice e (fst (crtPath e obj))) \<noteq> []
              then filter (\<lambda>c. \<not> cert_isNull c \<and> date (currentDateTime e) < date (expiryDate c))
                   (fromDevice e (fst (crtPath e obj)))
              else getCertificates (server s)) \<and>
           getPrivateKey (server s') =
             (if key_isNull (readKey e (fst (keyPath e obj)) (toString (cfg_keyPassPhrase obj) []))
              then getPrivateKey (server s)
              else readKey e (fst (keyPath e obj)) (toString (cfg_keyPassPhrase obj) []))"
proof -
  obtain s' ev_a s3 ev_b where
    run: "handleSettingsUpdate e WEBSERVER obj s = Some (s', ev_a @ snd (loadSsl e obj s3) @ ev_b)"
    and old: "getCertificates (server s3) = getCertificates (server s)"
      "getPrivateKey (server s3) = getPrivateKey (server s)"
    and new: "getCertificates (server s') = getCertificates (server (fst (loadSsl e obj s3)))"
      "getPrivateKey (server s') = getPrivateKey (server (fst (loadSsl e obj s3)))"
    using handleSettingsUpdate_ssl_run [OF assms, of obj] by blast
  have "getCertificates (server s') =
             (if filter (\<lambda>c. \<not> cert_isNull c \<and> date (currentDateTime e) < date (expiryDate c))
                   (fromDevice e (fst (crtPath e obj))) \<noteq> []
              then filter (\<lambda>c. \<not> cert_isNull c \<and> date (currentDateTime e) < date (expiryDate c))
                   (fromDevice e (fst (crtPath e obj)))
              else getCertificates (server s))"
    using new(1) old(1) by (simp only: loadSsl_certificates)
  moreover have "getPrivateKey (server s') =
             (if key_isNull (readKey e (fst (keyPath e obj)) (toString (cfg_keyPassPhrase obj) []))
              then getPrivateKey (server s)
              else readKey e (fst (keyPath e obj)) (toString (cfg_keyPassPhrase obj) []))"
    using new(2) old(2) by (simp only: loadSsl_privateKey)
  ultimately show ?thesis by (intro exI conjI) (rule run | assumption)+
qed

text \<open>
  C3, witness: the certificate file holds one expired certificate, the key file a good
  key. The old certificate stays, the new key is installed.
\<close>

theorem handleSettingsUpdate_installs_each_half_alone_witness:
  "useSsl (running_WebServer True 8092 [certificate ''old'' 8640000000] (private_key ''old'')) \<and>
   \<not> occupied (world (\<lambda>p. False) (certs_at '':/hyperhdr.crt'' [certificate ''stale'' 1000])
        (key_at '':/hyperhdr.key'' (private_key ''fresh'')) 864000000) 8092 \<and>
   handleSettingsUpdate
       (world (\<lambda>p. False) (certs_at '':/hyperhdr.crt'' [certificate ''stale'' 1000])
          (key_at '':/hyperhdr.key'' (private_key ''fresh'')) 864000000)
       WEBSERVER (ports_only 8090 8092)
       (running_WebServer True 8092 [certificate ''old'' 8640000000] (private_key ''old'')) =
     Some (running_WebServer True 8092 [certificate ''old'' 8640000000] (private_key ''fresh''),
       [Log Info Apply_Webserver_settings, Log Info (Set_document_root_to '':/webconfig''),
        setBaseUrl '':/webconfig'',
        Log Error (SSL_certificate_invalid_or_expired '':/hyperhdr.crt''),
        Log Error (No_valid_SSL_certificate_found '':/hyperhdr.crt''),
        Log Info Setup_private_SSL_key, setPrivateKey (private_key ''fresh''),
        server_start 8092, portChanged 8092]) \<and>
   (\<exists>s' evs. handleSettingsUpdate
       (world (\<lambda>p. False) (certs_at '':/hyperhdr.crt'' [certificate ''stale'' 1000])
          (key_at '':/hyperhdr.key'' (private_key ''fresh'')) 864000000)
       WEBSERVER (ports_only 8090 8092)
       (running_WebServer True 8092 [certificate ''old'' 8640000000] (private_key ''old'')) = Some (s', evs) \<and>
      getCertificates (server s') = [certificate ''old'' 8640000000] \<and>
      getPrivateKey (server s') = private_key ''fresh'')"
proof -
  let ?e = "world (\<lambda>p. False) (certs_at '':/hyperhdr.crt'' [certificate ''stale'' 1000])
          (key_at '':/hyperhdr.key'' (private_key ''fresh'')) 864000000"
  let ?s = "running_WebServer True 8092 [certificate ''old'' 8640000000] (private_key ''old'')"
  let ?obj = "ports_only 8090 8092"
  have ssl: "useSsl ?s" by (simp add: example_defs)
  have free: "\<not> occupied ?e 8092" by (simp add: world_def)
  have run: "handleSettingsUpdate ?e WEBSERVER ?obj ?s =
     Some (running_WebServer True 8092 [certificate ''old'' 8640000000] (private_key ''fresh''),
       [Log Info Apply_Webserver_settings, Log Info (Set_document_root_to '':/webconfig''),
        setBaseUrl '':/webconfig'',
        Log Error (SSL_certificate_invalid_or_expired '':/hyperhdr.crt''),
        Log Error (No_valid_SSL_certificate_found '':/hyperhdr.crt''),
        Log Info Setup_private_SSL_key, setPrivateKey (private_key ''fresh''),
        server_start 8092, portChanged 8092])"
    by (simp add: run_defs example_defs)
  have crt: "fst (crtPath ?e ?obj) = '':/hyperhdr.crt''" "fst (keyPath ?e ?obj) = '':/hyperhdr.key''"
    by (simp_all add: run_defs)
  from handleSettingsUpdate_installs_each_half_alone [OF ssl free, of ?obj]
  obtain s' evs where r: "handleSettingsUpdate ?e WEBSERVER ?obj ?s = Some (s', evs)"
    and c: "getCertificates (server s') =
             (if filter (\<lambda>c. \<not> cert_isNull c \<and> date (currentDateTime ?e) < date (expiryDate c))
                   (fromDevice ?e (fst (crtPath ?e ?obj))) \<noteq> []
              then filter (\<lambda>c. \<not> cert_isNull c \<and> date (currentDateTime ?e) < date (expiryDate c))
                   (fromDevice ?e (fst (crtPath ?e ?obj)))
              else getCertificates (server ?s))"
    and k: "getPrivateKey (server s') =
             (if key_isNull (readKey ?e (fst (keyPath ?e ?obj)) (toString (cfg_keyPassPhrase ?obj) []))
              then getPrivateKey (server ?s)
              else readKey ?e (fst (keyPath ?e ?obj)) (toString (cfg_keyPassPhrase ?obj) []))"
    by (elim exE conjE)
  have c': "getCertificates (server s') = [certificate ''old'' 8640000000]"
    unfolding c crt by (simp add: world_def example_defs date_def MSECS_PER_DAY_def)
  have k': "getPrivateKey (server s') = private_key ''fresh''"
    unfolding k crt by (simp add: world_def example_defs)
  from r c' k' have "\<exists>s' evs. handleSettingsUpdate ?e WEBSERVER ?obj ?s = Some (s', evs) \<and>
      getCertificates (server s') = [certificate ''old'' 8640000000] \<and>
      getPrivateKey (server s') = private_key ''fresh''"
    by blast
  with ssl free run show ?thesis by (intro conjI)
qed

text \<open>
  C3 as stated fails: the certificate file holds a good certificate and the key cannot
  be parsed. The new certificate is installed, beside the old key.
\<close>

theorem handleSettingsUpdate_new_certificates_old_key:
  "handleSettingsUpdate
       (world (\<lambda>p. False) (certs_at '':/hyperhdr.crt'' [certificate ''fresh'' 8640000000]) no_key 864000000)
       WEBSERVER (ports_only 8090 8092)
       (running_WebServer True 8092 [certificate ''old'' 8640000000] (private_key ''old'')) =
     Some (running_WebServer True 8092 [certificate ''fresh'' 8640000000] (private_key ''old''),
       [Log Info Apply_Webserver_settings, Log Info (Set_document_root_to '':/webconfig''),
        setBaseUrl '':/webconfig'', Log Info Setup_SSL_certificate,
        setCertificates [certificate ''fresh'' 8640000000],
        Log Error (SSL_key_invalid '':/hyperhdr.key''), server_start 8092, portChanged 8092]) \<and>
   key_isNull (readKey (world (\<lambda>p. False) (certs_at '':/hyperhdr.crt'' [certificate ''fresh'' 8640000000]) no_key 864000000)
        '':/hyperhdr.key'' [])"
  by (simp add: run_defs example_defs)

section \<open>C4: which certificates are installed\<close>

text \<open>
  C4. The claim holds for what the code reports to do (its error line 198 speaks of a
  certificate that "reached expiry date") and fails on the code as written: line 195
  compares the calendar date of now in the local zone with the calendar date of the
  expiry in UTC. On a machine ten hours behind UTC, at 20:00 local time (06:00 UTC of the
  next day), a certificate that expired five hours ago has an expiry date one day after
  the local date: it passes the test and is installed. On a machine fourteen hours ahead
  of UTC, at 02:00 local time (12:00 UTC of the day before), a certificate with 27 hours
  of validity left has an expiry date equal to the local date: it is rejected, with the
  error of line 198.
\<close>

theorem handleSettingsUpdate_installs_expired_certificate:
  "handleSettingsUpdate
       (world_in_zone (- 36000000) (\<lambda>p. False)
          (certs_at '':/hyperhdr.crt'' [certificate ''expired five hours ago'' 90000000])
          no_key 108000000)
       WEBSERVER (ports_only 8090 8092) (new_WebServer True 8092) =
     Some (running_WebServer True 8092 [certificate ''expired five hours ago'' 90000000] (no_key [] []),
       [Log Info Apply_Webserver_settings, Log Info (Set_document_root_to '':/webconfig''),
        setBaseUrl '':/webconfig'', server_stop, Log Info Setup_SSL_certificate,
        setCertificates [certificate ''expired five hours ago'' 90000000],
        Log Error (SSL_key_invalid '':/hyperhdr.key''), server_start 8092,
        emitted (started 8092), Log Info (Started_on_port 8092), stateChange True,
        portChanged 8092]) \<and>
   remainingValidity \<lparr>msecsSinceEpoch = 108000000, offsetFromUtc = - 36000000\<rparr>
       (certificate ''expired five hours ago'' 90000000) = - 18000000 \<and>
   notAfterInPast \<lparr>msecsSinceEpoch = 108000000, offsetFromUtc = - 36000000\<rparr>
       (certificate ''expired five hours ago'' 90000000) \<and>
   handleSettingsUpdate
       (world_in_zone 50400000 (\<lambda>p. False)
          (certs_at '':/hyperhdr.crt'' [certificate ''27 hours left'' 140400000])
          no_key 43200000)
       WEBSERVER (ports_only 8090 8092) (new_WebServer True 8092) =
     Some (running_WebServer True 8092 [] (no_key [] []),
       [Log Info Apply_Webserver_settings, Log Info (Set_document_root_to '':/webconfig''),
        setBaseUrl '':/webconfig'', server_stop,
        Log Error (SSL_certificate_invalid_or_expired '':/hyperhdr.crt''),
        Log Error (No_valid_SSL_certificate_found '':/hyperhdr.crt''),
        Log Error (SSL_key_invalid '':/hyperhdr.key''), server_start 8092,
        emitted (started 8092), Log Info (Started_on_port 8092), stateChange True,
        portChanged 8092]) \<and>
   remainingValidity \<lparr>msecsSinceEpoch = 43200000, offsetFromUtc = 50400000\<rparr>
       (certificate ''27 hours left'' 140400000) = 97200000 \<and>
   hasFullDayRemaining \<lparr>msecsSinceEpoch = 43200000, offsetFromUtc = 50400000\<rparr>
       (certificate ''27 hours left'' 140400000)"
  by (simp add: run_defs example_defs probe.simps hasFullDayRemaining_def remainingValidity_def
        notAfterInPast_def)

section \<open>C8: paths that fall back to the built-in ones\<close>

text \<open>
  C8 (as amended). A key or certificate path that equals the built-in default or is
  empty after trimming is replaced by the built-in default without any report; a path
  that is neither and does not exist on disk is replaced by the built-in default with
  one error-level report; any other path is kept. On a TLS instance (in a world where
  some port is free) the run returns, these are its only fallback reports, the
  certificates it installs are read from the resolved certificate path, the key from the
  resolved key path, and the listener is started.
\<close>

theorem handleSettingsUpdate_path_fallback:
  fixes q :: quint16
  assumes "useSsl s" and "\<not> occupied e q"
  shows "\<exists>s' evs. handleSettingsUpdate e WEBSERVER obj s = Some (s', evs) \<and>
           keyPath e obj =
             (let k = toString (cfg_keyPath obj) (WEBSERVER_DEFAULT_KEY_PATH e) in
              if k = WEBSERVER_DEFAULT_KEY_PATH e \<or> trimmed_isEmpty k then (WEBSERVER_DEFAULT_KEY_PATH e, [])
              else if file_exists e k then (k, [])
              else (WEBSERVER_DEFAULT_KEY_PATH e, [Log Error (No_SSL_key_found_falling_back k)])) \<and>
           crtPath e obj =
             (let c = toString (cfg_crtPath obj) (WEBSERVER_DEFAULT_CRT_PATH e) in
              if c = WEBSERVER_DEFAULT_CRT_PATH e \<or> trimmed_isEmpty c then (WEBSERVER_DEFAULT_CRT_PATH e, [])
              else if file_exists e c then (c, [])
              else (WEBSERVER_DEFAULT_CRT_PATH e, [Log Error (No_SSL_certificate_found_falling_back c)])) \<and>
           filter is_fallback_report evs = snd (keyPath e obj) @ snd (crtPath e obj) \<and>
           installedCertificates evs =
             filter (\<lambda>c. \<not> cert_isNull c \<and> date (currentDateTime e) < date (expiryDate c))
               (fromDevice e (fst (crtPath e obj))) \<and>
           getPrivateKey (server s') =
             (if key_isNull (readKey e (fst (keyPath e obj)) (toString (cfg_keyPassPhrase obj) []))
              then getPrivateKey (server s)
              else readKey e (fst (keyPath e obj)) (toString (cfg_keyPassPhrase obj) [])) \<and>
           server_start (port s') \<in> set evs"
proof -
  obtain s' ev_a s3 ev_b where
    run: "handleSettingsUpdate e WEBSERVER obj s = Some (s', ev_a @ snd (loadSsl e obj s3) @ ev_b)"
    and none: "installedCertificates ev_a = []" "installedCertificates ev_b = []"
    and quiet: "filter is_fallback_report ev_a = []" "filter is_fallback_report ev_b = []"
    and started: "server_start (port s') \<in> set ev_b"
    and old: "getPrivateKey (server s3) = getPrivateKey (server s)"
    and new: "getPrivateKey (server s') = getPrivateKey (server (fst (loadSsl e obj s3)))"
    using handleSettingsUpdate_ssl_run [OF assms, of obj] by blast
  let ?evs = "ev_a @ snd (loadSsl e obj s3) @ ev_b"
  have k: "keyPath e obj =
             (let k = toString (cfg_keyPath obj) (WEBSERVER_DEFAULT_KEY_PATH e) in
              if k = WEBSERVER_DEFAULT_KEY_PATH e \<or> trimmed_isEmpty k then (WEBSERVER_DEFAULT_KEY_PATH e, [])
              else if file_exists e k then (k, [])
              else (WEBSERVER_DEFAULT_KEY_PATH e, [Log Error (No_SSL_key_found_falling_back k)]))"
    by (simp add: keyPath_def Let_def)
  have c: "crtPath e obj =
             (let c = toString (cfg_crtPath obj) (WEBSERVER_DEFAULT_CRT_PATH e) in
              if c = WEBSERVER_DEFAULT_CRT_PATH e \<or> trimmed_isEmpty c then (WEBSERVER_DEFAULT_CRT_PATH e, [])
              else if file_exists e c then (c, [])
              else (WEBSERVER_DEFAULT_CRT_PATH e, [Log Error (No_SSL_certificate_found_falling_back c)]))"
    by (simp add: crtPath_def Let_def)
  have reports: "filter is_fallback_report ?evs = snd (keyPath e obj) @ snd (crtPath e obj)"
    by (simp add: quiet fallback_loadSsl)
  have inst: "installedCertificates ?evs =
             filter (\<lambda>c. \<not> cert_isNull c \<and> date (currentDateTime e) < date (expiryDate c))
               (fromDevice e (fst (crtPath e obj)))"
    by (simp add: installedCertificates_append none installedCertificates_loadSsl daysTo_positive)
  have key: "getPrivateKey (server s') =
             (if key_isNull (readKey e (fst (keyPath e obj)) (toString (cfg_keyPassPhrase obj) []))
              then getPrivateKey (server s)
              else readKey e (fst (keyPath e obj)) (toString (cfg_keyPassPhrase obj) []))"
    using new old by (simp only: loadSsl_privateKey)
  have st: "server_start (port s') \<in> set ?evs" using started by simp
  show ?thesis
    by (intro exI conjI) (rule run k c reports inst key st)+
qed

text \<open>
  C8, witness: the configured key does not exist, the configured certificate does. The
  built-in key is installed, with one error report; the configured certificate is used.
\<close>

theorem handleSettingsUpdate_path_fallback_witness:
  "useSsl (new_WebServer True 8092) \<and>
   \<not> occupied (world (\<lambda>p. False) (certs_at ''/etc/my.crt'' [certificate ''mine'' 172800000])
        (key_at '':/hyperhdr.key'' (private_key ''internal'')) 0) 8092 \<and>
   handleSettingsUpdate
       (world (\<lambda>p. False) (certs_at ''/etc/my.crt'' [certificate ''mine'' 172800000])
          (key_at '':/hyperhdr.key'' (private_key ''internal'')) 0)
       WEBSERVER (paths ''/etc/missing.key'' ''/etc/my.crt'') (new_WebServer True 8092) =
     Some (running_WebServer True 8092 [certificate ''mine'' 172800000] (private_key ''internal''),
       [Log Info Apply_Webserver_settings, Log Info (Set_document_root_to '':/webconfig''),
        setBaseUrl '':/webconfig'', server_stop,
        Log Error (No_SSL_key_found_falling_back ''/etc/missing.key''),
        Log Info Setup_SSL_certificate, setCertificates [certificate ''mine'' 172800000],
        Log Info Setup_private_SSL_key, setPrivateKey (private_key ''internal''),
        server_start 8092, emitted (started 8092), Log Info (Started_on_port 8092),
        stateChange True, portChanged 8092]) \<and>
   (\<exists>s' evs. handleSettingsUpdate
       (world (\<lambda>p. False) (certs_at ''/etc/my.crt'' [certificate ''mine'' 172800000])
          (key_at '':/hyperhdr.key'' (private_key ''internal'')) 0)
       WEBSERVER (paths ''/etc/missing.key'' ''/etc/my.crt'') (new_WebServer True 8092) = Some (s', evs) \<and>
      filter is_fallback_report evs = [Log Error (No_SSL_key_found_falling_back ''/etc/missing.key'')] \<and>
      getPrivateKey (server s') = private_key ''internal'')"
proof -
  let ?e = "world (\<lambda>p. False) (certs_at ''/etc/my.crt'' [certificate ''mine'' 172800000])
          (key_at '':/hyperhdr.key'' (private_key ''internal'')) 0"
  let ?s = "new_WebServer True 8092"
  let ?obj = "paths ''/etc/missing.key'' ''/etc/my.crt''"
  have ssl: "useSsl ?s" by (simp add: new_WebServer_def)
  have free: "\<not> occupied ?e 8092" by (simp add: world_def)
  have run: "handleSettingsUpdate ?e WEBSERVER ?obj ?s =
     Some (running_WebServer True 8092 [certificate ''mine'' 172800000] (private_key ''internal''),
       [Log Info Apply_Webserver_settings, Log Info (Set_document_root_to '':/webconfig''),
        setBaseUrl '':/webconfig'', server_stop,
        Log Error (No_SSL_key_found_falling_back ''/etc/missing.key''),
        Log Info Setup_SSL_certificate, setCertificates [certificate ''mine'' 172800000],
        Log Info Setup_private_SSL_key, setPrivateKey (private_key ''internal''),
        server_start 8092, emitted (started 8092), Log Info (Started_on_port 8092),
        stateChange True, portChanged 8092])"
    by (simp add: run_defs example_defs probe.simps)
  have kp: "keyPath ?e ?obj = ('':/hyperhdr.key'', [Log Error (No_SSL_key_found_falling_back ''/etc/missing.key'')])"
    and cp: "crtPath ?e ?obj = (''/etc/my.crt'', [])"
    by (simp_all add: run_defs example_defs)
  from handleSettingsUpdate_path_fallback [OF ssl free, of ?obj]
  obtain s' evs where r: "handleSettingsUpdate ?e WEBSERVER ?obj ?s = Some (s', evs)"
    and f: "filter is_fallback_report evs = snd (keyPath ?e ?obj) @ snd (crtPath ?e ?obj)"
    and k: "getPrivateKey (server s') =
             (if key_isNull (readKey ?e (fst (keyPath ?e ?obj)) (toString (cfg_keyPassPhrase ?obj) []))
              then getPrivateKey (server ?s)
              else readKey ?e (fst (keyPath ?e ?obj)) (toString (cfg_keyPassPhrase ?obj) []))"
    by (elim exE conjE)
  have f': "filter is_fallback_report evs = [Log Error (No_SSL_key_found_falling_back ''/etc/missing.key'')]"
    unfolding f kp cp by simp
  have k': "getPrivateKey (server s') = private_key ''internal''"
    unfolding k kp by (simp add: world_def example_defs)
  from r f' k' have "\<exists>s' evs. handleSettingsUpdate ?e WEBSERVER ?obj ?s = Some (s', evs) \<and>
      filter is_fallback_report evs = [Log Error (No_SSL_key_found_falling_back ''/etc/missing.key'')] \<and>
      getPrivateKey (server s') = private_key ''internal''"
    by blast
  with ssl free run show ?thesis by (intro conjI)
qed

text \<open>
  C8 as stated fails: an empty key path and a certificate path equal to the built-in
  default are replaced by the built-in paths without an error-level report of the
  replacement (the two errors of the run are about the content of the files).
\<close>

theorem empty_and_default_paths_fall_back_silently:
  "keyPath (world (\<lambda>p. False) no_certs no_key 0) (paths [] '':/hyperhdr.crt'') = ('':/hyperhdr.key'', []) \<and>
   crtPath (world (\<lambda>p. False) no_certs no_key 0) (paths [] '':/hyperhdr.crt'') = ('':/hyperhdr.crt'', []) \<and>
   handleSettingsUpdate (world (\<lambda>p. False) no_certs no_key 0) WEBSERVER (paths [] '':/hyperhdr.crt'')
       (new_WebServer True 8092) =
     Some (running_WebServer True 8092 [] (no_key [] []),
       [Log Info Apply_Webserver_settings, Log Info (Set_document_root_to '':/webconfig''),
        setBaseUrl '':/webconfig'', server_stop,
        Log Error (No_valid_SSL_certificate_found '':/hyperhdr.crt''),
        Log Error (SSL_key_invalid '':/hyperhdr.key''), server_start 8092,
        emitted (started 8092), Log Info (Started_on_port 8092), stateChange True,
        portChanged 8092])"
  by (simp add: run_defs example_defs probe.simps)

section \<open>C6: the Bonjour register\<close>

text \<open>
  C6 (as amended). In a run (in a world where some port is free) the listener enters
  Listening exactly when the port changes or the transport was not listening, and leaves
  it exactly when the port changes while it was listening. The Bonjour register is
  touched only on entering Listening, only when built with \<open>ENABLE_BONJOUR\<close>, only on
  an instance without TLS, and only when it does not hold the started port already: a
  register for another port is deleted, and a new one is created and registered. Leaving
  Listening withdraws nothing, and a TLS instance never announces.
\<close>

theorem handleSettingsUpdate_service_register:
  fixes q :: quint16
  assumes "\<not> occupied e q"
  shows "\<exists>s' evs. handleSettingsUpdate e WEBSERVER obj s = Some (s', evs) \<and>
           signals evs =
             (if port s \<noteq> newPort s obj \<and> isListening (server s) then [stopped] else []) @
             (if port s \<noteq> newPort s obj \<or> \<not> isListening (server s) then [started (port s')] else []) \<and>
           filter is_serviceRegister_call evs =
             (if (port s \<noteq> newPort s obj \<or> \<not> isListening (server s)) \<and> ENABLE_BONJOUR e \<and> \<not> useSsl s \<and>
                 serviceRegister s \<noteq> Some (port s')
              then (if serviceRegister s = None then [] else [delete_serviceRegister]) @ [registerService (port s')]
              else []) \<and>
           serviceRegister s' =
             (if (port s \<noteq> newPort s obj \<or> \<not> isListening (server s)) \<and> ENABLE_BONJOUR e \<and> \<not> useSsl s
              then Some (port s') else serviceRegister s)"
proof -
  let ?s1 = "fst (applyDocumentRoot e obj s)"
  let ?s2 = "fst (applyPort e obj ?s1)"
  obtain p ws where n: "negotiate e ?s2 = Some (?s2\<lparr>port := p\<rparr>, map (Log Warning) ws)"
      and free: "\<not> isListening (server ?s2) \<longrightarrow> \<not> occupied e p"
    using negotiate_cases [OF assms, of ?s2] by blast
  let ?s4 = "fst (applySsl e obj (?s2\<lparr>port := p\<rparr>))"
  let ?s5 = "fst (start e ?s4)"
  let ?evs = "snd (applyDocumentRoot e obj s) @ snd (applyPort e obj ?s1) @ map (Log Warning) ws @
                snd (applySsl e obj (?s2\<lparr>port := p\<rparr>)) @ snd (start e ?s4) @ [portChanged (port ?s5)]"
  have run: "handleSettingsUpdate e WEBSERVER obj s = Some (?s5, ?evs)"
    by (simp add: handleSettingsUpdate_WEBSERVER n)
  have p5: "port ?s5 = p" by (simp add: port_start port_applySsl)
  have sr4: "serviceRegister ?s4 = serviceRegister s" "useSsl ?s4 = useSsl s" "port ?s4 = p"
    by (simp_all add: serviceRegister_frame applySsl_frame applyPort_frame applyDocumentRoot_frame port_applySsl)
  have sig_pre: "signals ?evs =
      signals (snd (applyPort e obj ?s1)) @ signals (snd (start e ?s4))"
    by (simp add: signals_append signals_applyDocumentRoot signals_applySsl signals_Log)
  have reg_pre: "filter is_serviceRegister_call ?evs = filter is_serviceRegister_call (snd (start e ?s4))"
    by (simp add: register_applyDocumentRoot register_applyPort register_applySsl filter_map comp_def)
  show ?thesis
  proof (cases "port s \<noteq> newPort s obj \<or> \<not> isListening (server s)")
    case True
    have l2: "\<not> isListening (server ?s2)"
      using True by (auto simp add: applyPort_def stop_eq applyDocumentRoot_frame)
    have sig2: "signals (snd (applyPort e obj ?s1)) =
        (if port s \<noteq> newPort s obj \<and> isListening (server s) then [stopped] else [])"
      by (simp add: applyPort_def stop_eq applyDocumentRoot_frame)
    have s4: "\<not> isListening (server ?s4)" "\<not> occupied e (port ?s4)"
      using l2 free sr4(3) by (simp_all add: applySsl_frame)
    have sig: "signals ?evs =
             (if port s \<noteq> newPort s obj \<and> isListening (server s) then [stopped] else []) @
             (if port s \<noteq> newPort s obj \<or> \<not> isListening (server s) then [started (port ?s5)] else [])"
      unfolding sig_pre sig2 using True start_free(3) [OF s4] by (simp add: sr4 p5)
    have reg: "filter is_serviceRegister_call ?evs =
             (if (port s \<noteq> newPort s obj \<or> \<not> isListening (server s)) \<and> ENABLE_BONJOUR e \<and> \<not> useSsl s \<and>
                 serviceRegister s \<noteq> Some (port ?s5)
              then (if serviceRegister s = None then [] else [delete_serviceRegister]) @ [registerService (port ?s5)]
              else [])"
      unfolding reg_pre using True register_start_free(1) [OF s4] by (simp add: sr4 p5)
    have sr: "serviceRegister ?s5 =
             (if (port s \<noteq> newPort s obj \<or> \<not> isListening (server s)) \<and> ENABLE_BONJOUR e \<and> \<not> useSsl s
              then Some (port ?s5) else serviceRegister s)"
      using True register_start_free(2) [OF s4] by (simp add: sr4 p5)
    show ?thesis by (intro exI conjI) (rule run sig reg sr)+
  next
    case False
    then have same: "port s = newPort s obj" and l: "isListening (server s)" by simp_all
    have ap: "applyPort e obj ?s1 = (?s1, [])"
      using same by (simp add: applyPort_def applyDocumentRoot_frame)
    have l4: "isListening (server ?s4)"
      using l by (simp add: applySsl_frame ap applyDocumentRoot_frame)
    have st: "start e ?s4 = (?s4, [server_start (port ?s4)])"
      by (rule start_listening [OF l4])
    have sig2: "signals (snd (applyPort e obj ?s1)) = []" using ap by simp
    have sigst: "signals (snd (start e ?s4)) = []" using st by simp
    have regst: "filter is_serviceRegister_call (snd (start e ?s4)) = []" using st by simp
    have srst: "serviceRegister ?s5 = serviceRegister s" using st sr4(1) by simp
    have sig: "signals ?evs =
             (if port s \<noteq> newPort s obj \<and> isListening (server s) then [stopped] else []) @
             (if port s \<noteq> newPort s obj \<or> \<not> isListening (server s) then [started (port ?s5)] else [])"
      unfolding sig_pre sig2 sigst using False by simp
    have reg: "filter is_serviceRegister_call ?evs =
             (if (port s \<noteq> newPort s obj \<or> \<not> isListening (server s)) \<and> ENABLE_BONJOUR e \<and> \<not> useSsl s \<and>
                 serviceRegister s \<noteq> Some (port ?s5)
              then (if serviceRegister s = None then [] else [delete_serviceRegister]) @ [registerService (port ?s5)]
              else [])"
      unfolding reg_pre regst using False by simp
    have sr: "serviceRegister ?s5 =
             (if (port s \<noteq> newPort s obj \<or> \<not> isListening (server s)) \<and> ENABLE_BONJOUR e \<and> \<not> useSsl s
              then Some (port ?s5) else serviceRegister s)"
      unfolding srst using False by simp
    show ?thesis by (intro exI conjI) (rule run sig reg sr)+
  qed
qed

text \<open>
  C6, witness: the first run of a fresh instance without TLS registers port 8090.
\<close>

theorem handleSettingsUpdate_service_register_witness:
  "\<not> occupied (world (\<lambda>p. False) no_certs no_key 0) 8090 \<and>
   handleSettingsUpdate (world (\<lambda>p. False) no_certs no_key 0) WEBSERVER (ports_only 8090 8092)
       (new_WebServer False 8090) =
     Some (running_WebServer False 8090 [] (no_key [] []),
       [Log Info Apply_Webserver_settings, Log Info (Set_document_root_to '':/webconfig''),
        setBaseUrl '':/webconfig'', server_stop, server_start 8090, emitted (started 8090),
        Log Info (Started_on_port 8090), registerService 8090, stateChange True, portChanged 8090]) \<and>
   (\<exists>s' evs. handleSettingsUpdate (world (\<lambda>p. False) no_certs no_key 0) WEBSERVER (ports_only 8090 8092)
       (new_WebServer False 8090) = Some (s', evs) \<and>
      signals evs = [started 8090] \<and>
      filter is_serviceRegister_call evs = [registerService 8090] \<and>
      serviceRegister s' = Some 8090)"
proof -
  let ?e = "world (\<lambda>p. False) no_certs no_key 0"
  let ?s = "new_WebServer False 8090"
  let ?obj = "ports_only 8090 8092"
  have free: "\<not> occupied ?e 8090" by (simp add: world_def)
  have run: "handleSettingsUpdate ?e WEBSERVER ?obj ?s =
     Some (running_WebServer False 8090 [] (no_key [] []),
       [Log Info Apply_Webserver_settings, Log Info (Set_document_root_to '':/webconfig''),
        setBaseUrl '':/webconfig'', server_stop, server_start 8090, emitted (started 8090),
        Log Info (Started_on_port 8090), registerService 8090, stateChange True, portChanged 8090])"
    by (simp add: run_defs example_defs probe.simps)
  have st: "port ?s \<noteq> newPort ?s ?obj" "\<not> isListening (server ?s)" "ENABLE_BONJOUR ?e" "\<not> useSsl ?s"
      "serviceRegister ?s = None"
    by (simp_all add: run_defs)
  from handleSettingsUpdate_service_register [OF free, of ?obj ?s]
  obtain s' evs where r: "handleSettingsUpdate ?e WEBSERVER ?obj ?s = Some (s', evs)"
    and g: "signals evs =
             (if port ?s \<noteq> newPort ?s ?obj \<and> isListening (server ?s) then [stopped] else []) @
             (if port ?s \<noteq> newPort ?s ?obj \<or> \<not> isListening (server ?s) then [started (port s')] else [])"
    and c: "filter is_serviceRegister_call evs =
             (if (port ?s \<noteq> newPort ?s ?obj \<or> \<not> isListening (server ?s)) \<and> ENABLE_BONJOUR ?e \<and> \<not> useSsl ?s \<and>
                 serviceRegister ?s \<noteq> Some (port s')
              then (if serviceRegister ?s = None then [] else [delete_serviceRegister]) @ [registerService (port s')]
              else [])"
    and v: "serviceRegister s' =
             (if (port ?s \<noteq> newPort ?s ?obj \<or> \<not> isListening (server ?s)) \<and> ENABLE_BONJOUR ?e \<and> \<not> useSsl ?s
              then Some (port s') else serviceRegister ?s)"
    by (elim exE conjE)
  from r run have "s' = running_WebServer False 8090 [] (no_key [] [])" by simp
  then have p: "port s' = 8090" by (simp add: example_defs)
  have g': "signals evs = [started 8090]" unfolding g using st p by simp
  have c': "filter is_serviceRegister_call evs = [registerService 8090]" unfolding c using st p by simp
  have v': "serviceRegister s' = Some 8090" unfolding v using st p by simp
  from r g' c' v' have "\<exists>s' evs. handleSettingsUpdate ?e WEBSERVER ?obj ?s = Some (s', evs) \<and>
      signals evs = [started 8090] \<and>
      filter is_serviceRegister_call evs = [registerService 8090] \<and>
      serviceRegister s' = Some 8090"
    by blast
  with free run show ?thesis by (intro conjI)
qed

text \<open>
  C6 as stated fails: an instance without TLS, listening on 8091 and registered there,
  is told to use the taken port 8090. The listener leaves Listening and enters it again
  on 8091; the register is neither deleted nor created.
\<close>

theorem restart_on_registered_port_without_withdraw_or_announce:
  "handleSettingsUpdate (world (\<lambda>p. p = 8090) no_certs no_key 0) WEBSERVER (ports_only 8090 8092)
       (running_WebServer False 8091 [] (no_key [] [])) =
     Some (running_WebServer False 8091 [] (no_key [] []),
       [Log Info Apply_Webserver_settings, Log Info (Set_document_root_to '':/webconfig''),
        setBaseUrl '':/webconfig'', server_stop, emitted stopped, Log Info Stopped,
        stateChange False,
        Log Warning (Port_in_use_will_increment 8090),
        Log Warning (Requested_Port_in_use_will_use 8090 8091),
        server_start 8091, emitted (started 8091), Log Info (Started_on_port 8091),
        stateChange True, portChanged 8091]) \<and>
   filter is_serviceRegister_call
       [Log Info Apply_Webserver_settings, Log Info (Set_document_root_to '':/webconfig''),
        setBaseUrl '':/webconfig'', server_stop, emitted stopped, Log Info Stopped,
        stateChange False,
        Log Warning (Port_in_use_will_increment 8090),
        Log Warning (Requested_Port_in_use_will_use 8090 8091),
        server_start 8091, emitted (started 8091), Log Info (Started_on_port 8091),
        stateChange True, portChanged 8091] = [] \<and>
   \<not> useSsl (running_WebServer False 8091 [] (no_key [] [])) \<and>
   ENABLE_BONJOUR (world (\<lambda>p. p = 8090) no_certs no_key 0)"
  by (simp add: run_defs example_defs probe.simps)

end
